theory Spec2Isabelle
  imports Main
begin

section \<open>JavaScript strings and the regular expressions of index.js\<close>

text \<open>
  A JavaScript string is modelled by the bytes of its UTF-8 text (\<^typ>\<open>string\<close>).
  The character classes below are the ASCII members of JavaScript's classes: every
  regular expression of \<^verbatim>\<open>index.js\<close> names ASCII characters only, and a byte of
  a multi-byte UTF-8 sequence is never an ASCII byte. White space beyond ASCII (U+00A0,
  U+2028 and the like) and case mapping beyond ASCII are outside the model.
\<close>

definition is_space :: "char \<Rightarrow> bool" where
  \<comment> \<open>\<^verbatim>\<open>\s\<close>: tab, line feed, vertical tab, form feed, carriage return, space\<close>
  "is_space c \<longleftrightarrow> c \<in> set [CHR 0x09, CHR 0x0A, CHR 0x0B, CHR 0x0C, CHR 0x0D, CHR '' '']"

definition is_line_terminator :: "char \<Rightarrow> bool" where
  \<comment> \<open>the characters that \<^verbatim>\<open>.\<close> does not match\<close>
  "is_line_terminator c \<longleftrightarrow> c = CHR 0x0A \<or> c = CHR 0x0D"

definition is_digit :: "char \<Rightarrow> bool" where
  \<comment> \<open>\<^verbatim>\<open>\d\<close>\<close>
  "is_digit c \<longleftrightarrow> c \<in> set ''0123456789''"

definition is_word_char :: "char \<Rightarrow> bool" where
  \<comment> \<open>\<^verbatim>\<open>\w\<close>, the class that \<^verbatim>\<open>\b\<close> looks at\<close>
  "is_word_char c \<longleftrightarrow>
     c \<in> set ''abcdefghijklmnopqrstuvwxyzABCDEFGHIJKLMNOPQRSTUVWXYZ0123456789_''"

definition lower_char :: "char \<Rightarrow> char" where
  "lower_char c =
     (case map_of (zip ''ABCDEFGHIJKLMNOPQRSTUVWXYZ'' ''abcdefghijklmnopqrstuvwxyz'') c of
        Some d \<Rightarrow> d
      | None \<Rightarrow> c)"


definition toLowerCase :: "string \<Rightarrow> string" where
  "toLowerCase s = map lower_char s"


definition trim :: "string \<Rightarrow> string" where
  \<comment> \<open>\<^verbatim>\<open>String.prototype.trim\<close>\<close>
  "trim s = rev (dropWhile is_space (rev (dropWhile is_space s)))"

text \<open>
  \<^verbatim>\<open>text.replace(/re/g, r)\<close>. The matcher \<open>m\<close> stands for the regular expression
  anchored at the current position: it returns the length of the match that starts
  there, if there is one. The scan goes from left to right, a match is replaced by
  \<open>r\<close> and the scan goes on behind it, so the replacement is never scanned again.
  After an empty match the scan moves one character on, as JavaScript does.
\<close>

function replace_g :: "(string \<Rightarrow> nat option) \<Rightarrow> string \<Rightarrow> string \<Rightarrow> string" where
  "replace_g m r [] = (case m [] of Some _ \<Rightarrow> r | None \<Rightarrow> [])"
| "replace_g m r (c # cs) =
     (case m (c # cs) of
        None \<Rightarrow> c # replace_g m r cs
      | Some 0 \<Rightarrow> r @ c # replace_g m r cs
      | Some (Suc n) \<Rightarrow> r @ replace_g m r (drop n cs))"
  by pat_completeness auto
termination
  by (relation "measure (\<lambda>(m, r, s). length s)") auto

definition bracket_mention :: "string \<Rightarrow> nat option" where
  \<comment> \<open>\<^verbatim>\<open>/<@[^>]+>/\<close>\<close>
  "bracket_mention s =
     (case s of
        c1 # c2 # rest \<Rightarrow>
          (let body = takeWhile (\<lambda>c. c \<noteq> CHR ''>'') rest
           in if c1 = CHR ''<'' \<and> c2 = CHR ''@'' \<and> body \<noteq> [] \<and> length body < length rest
              then Some (length body + 3) else None)
      | _ \<Rightarrow> None)"

definition at_mention :: "string \<Rightarrow> nat option" where
  \<comment> \<open>\<^verbatim>\<open>/@[^\s]+\s*/\<close>\<close>
  "at_mention s =
     (case s of
        c # rest \<Rightarrow>
          (let tok = takeWhile (\<lambda>c. \<not> is_space c) rest;
               ws = takeWhile is_space (dropWhile (\<lambda>c. \<not> is_space c) rest)
           in if c = CHR ''@'' \<and> tok \<noteq> [] then Some (1 + length tok + length ws) else None)
      | [] \<Rightarrow> None)"

definition space_run :: "string \<Rightarrow> nat option" where
  \<comment> \<open>\<^verbatim>\<open>/\s+/\<close>\<close>
  "space_run s =
     (let ws = takeWhile is_space s in if ws \<noteq> [] then Some (length ws) else None)"

section \<open>Text cleaning\<close>

definition cleanMessageText :: "string \<Rightarrow> string" where
  \<comment> \<open>the cleaning of \<^verbatim>\<open>handleMessageEvent\<close> and \<^verbatim>\<open>handleAppCommandEvent\<close>:
      \<^verbatim>\<open>.replace(/<@[^>]+>/g, '').replace(/@[^\s]+\s*/g, '').trim()\<close>\<close>
  "cleanMessageText t = trim (replace_g at_mention [] (replace_g bracket_mention [] t))"

definition cleanCommandText :: "string \<Rightarrow> string" where
  \<comment> \<open>the cleaning at the head of \<^verbatim>\<open>parseCommand\<close>: the same, then
      \<^verbatim>\<open>trimmed.replace(/\s+/g, ' ')\<close>\<close>
  "cleanCommandText t = replace_g space_run '' '' (cleanMessageText t)"

section \<open>Command parsing\<close>

record parsed_command =
  command :: string
  argument :: string

definition numericMatch :: "string \<Rightarrow> (char \<times> string) option" where
  \<comment> \<open>\<^verbatim>\<open>lower.match(/^([2-5])\s+(.*)$/)\<close>: the two groups\<close>
  "numericMatch s =
     (case s of
        [] \<Rightarrow> None
      | d # r \<Rightarrow>
          (let rest = dropWhile is_space r
           in if d \<in> set ''2345'' \<and> takeWhile is_space r \<noteq> [] \<and> \<not> list_ex is_line_terminator rest
              then Some (d, rest) else None))"

definition strip_slash :: "string \<Rightarrow> string" where
  \<comment> \<open>\<^verbatim>\<open>^\/?\<close>\<close>
  "strip_slash s = (case s of [] \<Rightarrow> [] | c # r \<Rightarrow> if c = CHR ''/'' then r else s)"

definition word_prefix :: "string \<Rightarrow> string \<Rightarrow> string option" where
  \<comment> \<open>\<^verbatim>\<open>/^\/?word\b/i\<close> for a lower-case \<open>word\<close> that ends in a word character: what
      follows the word\<close>
  "word_prefix word s =
     (let s1 = strip_slash s; after = drop (length word) s1
      in if length word \<le> length s1 \<and> toLowerCase (take (length word) s1) = word
            \<and> (after = [] \<or> \<not> is_word_char (hd after))
         then Some after else None)"

definition commandMatch :: "string \<Rightarrow> string \<Rightarrow> string option" where
  \<comment> \<open>\<^verbatim>\<open>trimmed.match(/^\/?word\b\s*(.*)$/i)\<close>: the group\<close>
  "commandMatch word s =
     (case word_prefix word s of
        None \<Rightarrow> None
      | Some after \<Rightarrow>
          (let rest = dropWhile is_space after
           in if list_ex is_line_terminator rest then None else Some rest))"

definition parseCommand :: "string \<Rightarrow> parsed_command" where
  "parseCommand messageText =
     (let trimmed = cleanCommandText messageText;
          lower = toLowerCase trimmed;
          numeric =
            (case numericMatch lower of
               None \<Rightarrow> None
             | Some (id_, rest) \<Rightarrow>
                 if id_ = CHR ''2'' then Some \<lparr>command = ''gemini'', argument = trim rest\<rparr>
                 else if id_ = CHR ''3'' then Some \<lparr>command = ''help'', argument = ''''\<rparr>
                 else if id_ = CHR ''4'' then Some \<lparr>command = ''wiki'', argument = trim rest\<rparr>
                 else if id_ = CHR ''5'' then Some \<lparr>command = ''chatgpt'', argument = trim rest\<rparr>
                 else None)
      in case numeric of
           Some r \<Rightarrow> r
         | None \<Rightarrow>
             (case commandMatch ''gemini'' trimmed of
                Some a \<Rightarrow> \<lparr>command = ''gemini'', argument = trim a\<rparr>
              | None \<Rightarrow>
             (case commandMatch ''wiki'' trimmed of
                Some a \<Rightarrow> \<lparr>command = ''wiki'', argument = trim a\<rparr>
              | None \<Rightarrow>
             (case commandMatch ''chatgpt'' trimmed of
                Some a \<Rightarrow> \<lparr>command = ''chatgpt'', argument = trim a\<rparr>
              | None \<Rightarrow>
             (if word_prefix ''help'' trimmed \<noteq> None
              then \<lparr>command = ''help'', argument = ''''\<rparr>
              else \<lparr>command = '''', argument = trimmed\<rparr>)))))"

section \<open>Predicates used to state the properties of the cleaning\<close>

text \<open>
  \<open>has_match m s\<close>: the regular expression behind the matcher \<open>m\<close> matches somewhere
  in \<open>s\<close>. \<open>tight s\<close>: \<open>s\<close> neither starts nor ends with white space.
\<close>

fun has_match :: "(string \<Rightarrow> nat option) \<Rightarrow> string \<Rightarrow> bool" where
  "has_match m [] = (m [] \<noteq> None)"
| "has_match m (c # cs) = (m (c # cs) \<noteq> None \<or> has_match m cs)"

definition tight :: "string \<Rightarrow> bool" where
  "tight s \<longleftrightarrow> s = [] \<or> (\<not> is_space (hd s) \<and> \<not> is_space (last s))"

section \<open>JavaScript values\<close>

text \<open>
  The values that JSON text parses to, and \<^verbatim>\<open>undefined\<close>. Numbers are the
  integers, and \<^verbatim>\<open>NaN\<close>, which \<^verbatim>\<open>parseInt\<close> returns for text without digits:
  the code never computes with a number it receives, it tests, compares and prints it. An object is the list of its members in their order, each key once.
\<close>

datatype json =
    JUndefined
  | JNull
  | JBool bool
  | JNum int
  | JNaN
  | JStr string
  | JArr "json list"
  | JObj "(string \<times> json) list"

fun starts_with :: "string \<Rightarrow> string \<Rightarrow> bool" where
  "starts_with s [] = True"
| "starts_with [] (p # ps) = False"
| "starts_with (c # cs) (p # ps) = (c = p \<and> starts_with cs ps)"

fun str_includes :: "string \<Rightarrow> string \<Rightarrow> bool" where
  \<comment> \<open>\<^verbatim>\<open>s.includes(p)\<close>\<close>
  "str_includes [] p = (p = [])"
| "str_includes (c # cs) p = (starts_with (c # cs) p \<or> str_includes cs p)"

section \<open>The log redactor\<close>

text \<open>
  \<^verbatim>\<open>sanitizeForLogging\<close> may be handed any object graph, also one with shared or
  cyclic references, so its argument is a value over a store: a value is a primitive or
  a reference, and the store gives the array or object behind each reference. The
  result is a fresh copy, a tree.
\<close>

type_synonym addr = nat

datatype val =
    VUndefined
  | VNull
  | VBool bool
  | VNum int
  | VStr string
  | VRef addr

datatype obj =
    OArr "val list"
  | OObj "(string \<times> val) list"

type_synonym store = "addr \<Rightarrow> obj"

definition sensitiveKeys :: "string list" where
  "sensitiveKeys =
     [''project_key'', ''user_key'', ''api_key'', ''apiKey'', ''key'', ''token'',
      ''access_token'', ''refresh_token'', ''secret'', ''password'', ''auth'',
      ''authorization'', ''credentials'', ''private_key'', ''privateKey'']"

definition is_sensitive :: "string \<Rightarrow> bool" where
  \<comment> \<open>\<^verbatim>\<open>sensitiveKeys.some(sensitive => lowerKey.includes(sensitive))\<close>\<close>
  "is_sensitive key = list_ex (\<lambda>sensitive. str_includes (toLowerCase key) sensitive) sensitiveKeys"

function sanitizeForLogging :: "store \<Rightarrow> val \<Rightarrow> nat \<Rightarrow> json" where
  "sanitizeForLogging h obj depth =
     (if depth > 10 then JStr ''[Max depth reached]''
      else case obj of
        VNull \<Rightarrow> JNull
      | VUndefined \<Rightarrow> JUndefined
      | VBool b \<Rightarrow> JBool b
      | VNum n \<Rightarrow> JNum n
      | VStr s \<Rightarrow> JStr s
      | VRef a \<Rightarrow>
          (case h a of
             OArr items \<Rightarrow> JArr (map (\<lambda>item. sanitizeForLogging h item (depth + 1)) items)
           | OObj entries \<Rightarrow>
               JObj (map (\<lambda>(key, value).
                           (key, if is_sensitive key then JStr ''***MASKED***''
                                 else sanitizeForLogging h value (depth + 1)))
                         entries)))"
  by pat_completeness auto
termination
  by (relation "measure (\<lambda>(h, obj, depth). 11 - depth)") auto

text \<open>
  \<open>nesting\<close> is the number of array and object levels of a value. The two stores
  are examples: in \<open>cyclic_store\<close> every object holds a reference to itself, in
  \<open>deep_store\<close> the number 5 lies below eleven arrays.
\<close>

fun nesting :: "json \<Rightarrow> nat" where
  "nesting (JArr items) = Suc (foldr max (map nesting items) 0)"
| "nesting (JObj entries) = Suc (foldr max (map (\<lambda>(key, value). nesting value) entries) 0)"
| "nesting _ = 0"

definition cyclic_store :: store where
  "cyclic_store = (\<lambda>a. OObj [(''name'', VStr ''x''), (''self'', VRef a), (''api_key'', VStr ''s3'')])"

definition deep_store :: store where
  "deep_store = (\<lambda>a. if a < 10 then OArr [VRef (a + 1)] else OArr [VNum 5])"


section \<open>Operations on JavaScript values\<close>

definition truthy :: "json \<Rightarrow> bool" where
  "truthy v \<longleftrightarrow> \<not> (v = JUndefined \<or> v = JNull \<or> v = JBool False \<or> v = JNum 0 \<or> v = JNaN
          \<or> v = JStr [])"

definition nullish :: "json \<Rightarrow> bool" where
  "nullish v \<longleftrightarrow> v = JUndefined \<or> v = JNull"

definition js_or :: "json \<Rightarrow> json \<Rightarrow> json" where
  \<comment> \<open>\<^verbatim>\<open>a || b\<close>\<close>
  "js_or a b = (if truthy a then a else b)"

definition js_and :: "json \<Rightarrow> json \<Rightarrow> json" where
  \<comment> \<open>\<^verbatim>\<open>a && b\<close>\<close>
  "js_and a b = (if truthy a then b else a)"

fun is_string :: "json \<Rightarrow> bool" where
  \<comment> \<open>\<^verbatim>\<open>typeof v === 'string'\<close>\<close>
  "is_string (JStr s) = True"
| "is_string _ = False"

fun is_array :: "json \<Rightarrow> bool" where
  \<comment> \<open>\<^verbatim>\<open>Array.isArray(v)\<close>\<close>
  "is_array (JArr xs) = True"
| "is_array _ = False"

fun is_object :: "json \<Rightarrow> bool" where
  \<comment> \<open>\<^verbatim>\<open>typeof v === 'object'\<close>, which holds of \<^verbatim>\<open>null\<close> too\<close>
  "is_object (JArr xs) = True"
| "is_object (JObj kvs) = True"
| "is_object JNull = True"
| "is_object _ = False"

fun lookup :: "(string \<times> json) list \<Rightarrow> string \<Rightarrow> json" where
  "lookup [] k = JUndefined"
| "lookup ((k', v) # kvs) k = (if k' = k then v else lookup kvs k)"

function decimal :: "nat \<Rightarrow> string" where
  "decimal n =
     (if n < 10 then [''0123456789'' ! n]
      else decimal (n div 10) @ [''0123456789'' ! (n mod 10)])"
  by pat_completeness auto
termination
  by (relation "measure id") auto

declare decimal.simps [simp del]

definition number_text :: "int \<Rightarrow> string" where
  \<comment> \<open>\<^verbatim>\<open>String(n)\<close> for an integer\<close>
  "number_text i = (if i < 0 then CHR ''-'' # decimal (nat (- i)) else decimal (nat i))"

fun property :: "json \<Rightarrow> string \<Rightarrow> json" where
  \<comment> \<open>\<^verbatim>\<open>v.k\<close> for a value that is neither \<^verbatim>\<open>null\<close> nor \<^verbatim>\<open>undefined\<close>: an own
      member, the length of a string or array, or \<^verbatim>\<open>undefined\<close>; \<^verbatim>\<open>v[0]\<close> is
      \<open>property v ''0''\<close>, and of a string it is the text of its first character, which is
      only ever tested. None of the names that the code reads from a value is the name
      of a method or of another inherited member.\<close>
  "property (JObj kvs) k = lookup kvs k"
| "property (JArr xs) k =
     (if k = ''length'' then JNum (int (length xs))
      else if k = ''0'' \<and> xs \<noteq> [] then hd xs
      else JUndefined)"
| "property (JStr s) k =
     (if k = ''length'' then JNum (int (length s))
      else if k = ''0'' \<and> s \<noteq> [] then JStr [hd s]
      else JUndefined)"
| "property _ k = JUndefined"


section \<open>Errors and the network\<close>

datatype js_error =
    Error string
  | TypeError string
  | SyntaxError string

fun message :: "js_error \<Rightarrow> string" where
  "message (Error m) = m"
| "message (TypeError m) = m"
| "message (SyntaxError m) = m"

definition bind_e :: "js_error + 'a \<Rightarrow> ('a \<Rightarrow> js_error + 'b) \<Rightarrow> js_error + 'b" where
  \<comment> \<open>sequencing: an exception ends the block\<close>
  "bind_e r f = (case r of Inl e \<Rightarrow> Inl e | Inr v \<Rightarrow> f v)"

definition cannot_read :: "json \<Rightarrow> string \<Rightarrow> js_error" where
  \<comment> \<open>the error of Node.js for \<^verbatim>\<open>v.k\<close> where \<open>v\<close> is \<^verbatim>\<open>null\<close> or \<^verbatim>\<open>undefined\<close>\<close>
  "cannot_read v k =
     TypeError (''Cannot read properties of '' @ (if v = JNull then ''null'' else ''undefined'')
                @ '' (reading '' @ [CHR 0x27] @ k @ [CHR 0x27] @ '')'')"


definition get :: "json \<Rightarrow> string \<Rightarrow> js_error + json" where
  \<comment> \<open>\<^verbatim>\<open>v.k\<close>\<close>
  "get v k = (if nullish v then Inl (cannot_read v k) else Inr (property v k))"

fun comma_join :: "string list \<Rightarrow> string" where
  "comma_join [] = []"
| "comma_join [s] = s"
| "comma_join (s # t # ts) = s @ '','' @ comma_join (t # ts)"

fun collect :: "('a \<Rightarrow> js_error + 'b) \<Rightarrow> 'a list \<Rightarrow> js_error + 'b list" where
  \<comment> \<open>a loop that takes one result from each element, and ends at the first exception\<close>
  "collect f [] = Inr []"
| "collect f (x # xs) = bind_e (f x) (\<lambda>y. bind_e (collect f xs) (\<lambda>ys. Inr (y # ys)))"

lemma collect_cong [fundef_cong]:
  "xs = ys \<Longrightarrow> (\<And>x. x \<in> set ys \<Longrightarrow> f x = g x) \<Longrightarrow> collect f xs = collect g ys"
  by (induction ys arbitrary: xs) (auto simp: bind_e_def)

definition has_own :: "(string \<times> json) list \<Rightarrow> string \<Rightarrow> bool" where
  "has_own kvs k \<longleftrightarrow> k \<in> set (map fst kvs)"

fun to_text :: "json \<Rightarrow> js_error + string" where
  \<comment> \<open>\<^verbatim>\<open>String(v)\<close>, which is also what a template literal writes for \<^verbatim>\<open>${v}\<close>. An
      object with a member of its own named \<^verbatim>\<open>toString\<close>, which is no function, has
      no text.\<close>
  "to_text JUndefined = Inr ''undefined''"
| "to_text JNull = Inr ''null''"
| "to_text (JBool b) = Inr (if b then ''true'' else ''false'')"
| "to_text (JNum n) = Inr (number_text n)"
| "to_text JNaN = Inr ''NaN''"
| "to_text (JStr s) = Inr s"
| "to_text (JArr xs) =
     bind_e (collect (\<lambda>x. if x = JUndefined \<or> x = JNull then Inr [] else to_text x) xs)
       (\<lambda>texts. Inr (comma_join texts))"
| "to_text (JObj kvs) =
     (if has_own kvs ''toString'' then Inl (TypeError ''Cannot convert object to primitive value'')
      else Inr ''[object Object]'')"

record http_request =
  url :: string
  http_method :: string
  headers :: "(string \<times> string) list"
  body :: json

text \<open>
  The body of a request is the value that \<^verbatim>\<open>JSON.stringify\<close> is applied to. A response
  carries its status, its text, and the value its text parses to, if it is JSON text
  (\<^verbatim>\<open>response.json()\<close> rejects with a \<^verbatim>\<open>SyntaxError\<close> otherwise). \<^verbatim>\<open>fetch\<close>
  itself rejects when the network fails.
\<close>

record http_response =
  status :: int
  response_text :: string
  response_json :: "json option"

type_synonym fetch = "http_request \<Rightarrow> js_error + http_response"


definition json_of :: "http_response \<Rightarrow> js_error + json" where
  \<comment> \<open>\<^verbatim>\<open>await response.json()\<close>\<close>
  "json_of r =
     (case response_json r of
        Some v \<Rightarrow> Inr v
      | None \<Rightarrow> Inl (SyntaxError ''Unexpected token in JSON''))"

section \<open>JSON text\<close>

definition quote_char :: "char \<Rightarrow> string" where
  "quote_char c =
     (if c = CHR 0x22 then [CHR 0x5C, CHR 0x22]
      else if c = CHR 0x5C then [CHR 0x5C, CHR 0x5C]
      else if c = CHR 0x08 then [CHR 0x5C, CHR ''b'']
      else if c = CHR 0x0C then [CHR 0x5C, CHR ''f'']
      else if c = CHR 0x0A then [CHR 0x5C, CHR ''n'']
      else if c = CHR 0x0D then [CHR 0x5C, CHR ''r'']
      else if c = CHR 0x09 then [CHR 0x5C, CHR ''t'']
      else if (of_char c :: nat) < 32
      then [CHR 0x5C] @ ''u00'' @ [''0123456789abcdef'' ! (of_char c div 16),
                                  ''0123456789abcdef'' ! (of_char c mod 16)]
      else [c])"

definition quote :: "string \<Rightarrow> string" where
  "quote s = [CHR 0x22] @ concat (map quote_char s) @ [CHR 0x22]"

fun JSON_stringify :: "json \<Rightarrow> string" where
  \<comment> \<open>\<^verbatim>\<open>JSON.stringify(v)\<close>, as the text that string concatenation makes of it\<close>
  "JSON_stringify JUndefined = ''undefined''"
| "JSON_stringify JNull = ''null''"
| "JSON_stringify (JBool b) = (if b then ''true'' else ''false'')"
| "JSON_stringify (JNum n) = number_text n"
| "JSON_stringify JNaN = ''null''"
| "JSON_stringify (JStr s) = quote s"
| "JSON_stringify (JArr xs) =
     ''['' @ comma_join (map (\<lambda>x. if x = JUndefined then ''null'' else JSON_stringify x) xs) @ '']''"
| "JSON_stringify (JObj kvs) =
     ''{'' @ comma_join (map (\<lambda>(k, v). quote k @ '':'' @ JSON_stringify v)
                            (filter (\<lambda>(k, v). v \<noteq> JUndefined) kvs)) @ ''}''"

section \<open>Configuration\<close>

text \<open>
  \<^verbatim>\<open>env.js\<close> is not part of the sources (only its example file is), so the
  configuration is a parameter of every function that reads it. A setting that is text
  is a string, as the example file makes it; the empty string stands for a setting that
  is not there, which the code tests in the same way (\<^verbatim>\<open>!setting\<close>). The numeric
  settings are passed through to the payload and never looked at.
\<close>

record env =
  projectID :: string
  location :: string
  geminiApiKey :: string
  geminiApiUrl :: string
  azureOpenAIEndpoint :: string
  azureOpenAIKey :: string
  azureOpenAIModel :: string
  azureSearchOpenAIModel :: string
  azureOpenAIApiVersion :: string
  azureOpenAITemperature :: json
  azureOpenAIMaxTokens :: json
  azureOpenAITopP :: json
  azureOpenAISystemMessage :: string
  azureOpenAIEmbeddingName :: string
  azureSearchService :: string
  azureSearchIndex :: string
  azureSearchKey :: string
  azureSearchQueryType :: string
  azureSearchTopK :: json
  azureSearchStrictness :: json
  azureSearchEnableInDomain :: bool
  azureSearchSemanticSearchConfig :: string
  azureSearchContentColumns :: string
  azureSearchVectorColumns :: string
  azureSearchTitleColumn :: string
  azureSearchUrlColumn :: string
  azureSearchFilenameColumn :: string
  searchMaxSearchQueries :: string
  searchAllowPartialResult :: bool
  searchIncludeContexts :: json
  searchVectorizationDimensions :: string
  azureCosmosDBAccount :: string
  azureCosmosDBDatabase :: string
  azureCosmosDBConversationsContainer :: string
  azureCosmosDBAccountKey :: string

section \<open>The search data source\<close>

fun split_on :: "char \<Rightarrow> string \<Rightarrow> string list" where
  \<comment> \<open>\<^verbatim>\<open>s.split(d)\<close> for a separator of one character\<close>
  "split_on d [] = [[]]"
| "split_on d (c # cs) =
     (if c = d then [] # split_on d cs
      else (case split_on d cs of p # ps \<Rightarrow> (c # p) # ps | [] \<Rightarrow> [[c]]))"

definition digit_value :: "char \<Rightarrow> nat option" where
  "digit_value c =
     map_of (zip ''0123456789abcdef'' [0 ..< 16] @ zip ''ABCDEF'' [10 ..< 16]) c"

definition is_radix_digit :: "nat \<Rightarrow> char \<Rightarrow> bool" where
  "is_radix_digit radix c = (case digit_value c of Some v \<Rightarrow> v < radix | None \<Rightarrow> False)"

definition digits_value :: "nat \<Rightarrow> string \<Rightarrow> nat" where
  "digits_value radix ds = foldl (\<lambda>acc c. acc * radix + the (digit_value c)) 0 ds"

definition parseInt :: "string \<Rightarrow> json" where
  \<comment> \<open>\<^verbatim>\<open>parseInt(s)\<close>: white space, a sign, \<^verbatim>\<open>0x\<close> for radix 16, then the digits\<close>
  "parseInt s =
     (let t = dropWhile is_space s;
          negative = (t \<noteq> [] \<and> hd t = CHR ''-'');
          u = (if t \<noteq> [] \<and> (hd t = CHR ''-'' \<or> hd t = CHR ''+'') then tl t else t);
          hex = starts_with (toLowerCase u) ''0x'';
          radix = (if hex then 16 else 10);
          ds = takeWhile (is_radix_digit radix) (if hex then drop 2 u else u)
      in if ds = [] then JNaN
         else JNum ((if negative then - 1 else 1) * int (digits_value radix ds)))"

definition buildAzureSearchDataSource :: "env \<Rightarrow> json" where
  "buildAzureSearchDataSource env =
     (let searchService = azureSearchService env;
          searchIndex = azureSearchIndex env;
          searchKey = azureSearchKey env;
          queryType = azureSearchQueryType env;
          semanticConfig = azureSearchSemanticSearchConfig env
      in if searchService = [] \<or> searchIndex = [] then JNull
         else
           (let searchEndpoint = ''https://'' @ searchService @ ''.search.windows.net'';
                authentication =
                  (if searchKey \<noteq> [] then JObj [(''type'', JStr ''api_key''), (''key'', JStr searchKey)]
                   else JObj [(''type'', JStr ''system_assigned_managed_identity'')]);
                fieldsMapping =
                  (if azureSearchContentColumns env \<noteq> []
                   then [(''content_fields'',
                          JArr (map (\<lambda>c. JStr (trim c)) (split_on (CHR ''|'') (azureSearchContentColumns env))))]
                   else [])
                  @ (if azureSearchVectorColumns env \<noteq> []
                     then [(''vector_fields'',
                            JArr (map (\<lambda>c. JStr (trim c)) (split_on (CHR ''|'') (azureSearchVectorColumns env))))]
                     else [])
                  @ (if azureSearchTitleColumn env \<noteq> []
                     then [(''title_field'', JStr (azureSearchTitleColumn env))] else [])
                  @ (if azureSearchUrlColumn env \<noteq> []
                     then [(''url_field'', JStr (azureSearchUrlColumn env))] else [])
                  @ (if azureSearchFilenameColumn env \<noteq> []
                     then [(''filepath_field'', JStr (azureSearchFilenameColumn env))] else []);
                embeddingName = azureOpenAIEmbeddingName env;
                embeddingDependency =
                  (if embeddingName \<noteq> [] \<and> str_includes queryType ''vector''
                   then JObj [(''type'', JStr ''deployment_name''), (''deployment_name'', JStr embeddingName)]
                   else JNull);
                parameters =
                  [(''endpoint'', JStr searchEndpoint),
                   (''index_name'', JStr searchIndex),
                   (''authentication'', authentication),
                   (''top_n_documents'', azureSearchTopK env),
                   (''strictness'', azureSearchStrictness env),
                   (''in_scope'', JBool (azureSearchEnableInDomain env)),
                   (''query_type'', JStr queryType),
                   (''include_contexts'', searchIncludeContexts env)]
                  @ (if searchMaxSearchQueries env \<noteq> []
                     then [(''max_search_queries'', parseInt (searchMaxSearchQueries env))] else [])
                  @ (if searchAllowPartialResult env
                     then [(''allow_partial_result'', JBool (searchAllowPartialResult env))] else [])
                  @ (if searchVectorizationDimensions env \<noteq> []
                     then [(''vectorization_dimensions'', parseInt (searchVectorizationDimensions env))]
                     else [])
                  @ (if semanticConfig \<noteq> [] \<and> str_includes queryType ''semantic''
                     then [(''semantic_configuration'', JStr semanticConfig)] else [])
                  @ (if fieldsMapping \<noteq> [] then [(''fields_mapping'', JObj fieldsMapping)] else [])
                  @ (if truthy embeddingDependency
                     then [(''embedding_dependency'', embeddingDependency)] else [])
            in JObj [(''type'', JStr ''azure_search''), (''parameters'', JObj parameters)]))"

section \<open>The Azure OpenAI client\<close>

record options =
  model :: string
  useSearch :: bool

record azure_result =
  content :: json
  citations :: json

definition select_model :: "env \<Rightarrow> options \<Rightarrow> string" where
  \<comment> \<open>``Determine which model to use''; an option that is not given is the empty string\<close>
  "select_model env options =
     (if model options \<noteq> [] then model options
      else if useSearch options
      then (if azureSearchOpenAIModel env \<noteq> [] then azureSearchOpenAIModel env
            else azureOpenAIModel env)
      else azureOpenAIModel env)"

definition azure_messages :: "env \<Rightarrow> string \<Rightarrow> json list \<Rightarrow> options \<Rightarrow> json list" where
  \<comment> \<open>``Build messages array''\<close>
  "azure_messages env prompt chatHistory options =
     (if useSearch options
      then [JObj [(''role'', JStr ''system''), (''content'', JStr (azureOpenAISystemMessage env))]]
      else [])
     @ chatHistory
     @ [JObj [(''role'', JStr ''user''), (''content'', JStr prompt)]]"

definition azure_payload :: "env \<Rightarrow> string \<Rightarrow> json list \<Rightarrow> options \<Rightarrow> (string \<times> json) list" where
  \<comment> \<open>``Build request payload'': the members of the payload object\<close>
  "azure_payload env prompt chatHistory options =
     [(''messages'', JArr (azure_messages env prompt chatHistory options)),
      (''temperature'', azureOpenAITemperature env),
      (''top_p'', azureOpenAITopP env),
      (''model'', JStr (select_model env options))]
     @ (if \<not> useSearch options then [(''max_completion_tokens'', azureOpenAIMaxTokens env)] else [])
     @ (if useSearch options
        then (let dataSourceConfig = buildAzureSearchDataSource env
              in if truthy dataSourceConfig then [(''data_sources'', JArr [dataSourceConfig])] else [])
        else [])"

definition strip_trailing_slash :: "string \<Rightarrow> string" where
  \<comment> \<open>\<^verbatim>\<open>endpoint.replace(/\/$/, '')\<close>\<close>
  "strip_trailing_slash s = (if s \<noteq> [] \<and> last s = CHR ''/'' then butlast s else s)"

definition azure_request :: "env \<Rightarrow> string \<Rightarrow> json list \<Rightarrow> options \<Rightarrow> http_request" where
  "azure_request env prompt chatHistory options =
     \<lparr>url = strip_trailing_slash (azureOpenAIEndpoint env) @ ''/openai/deployments/''
              @ select_model env options @ ''/chat/completions?api-version=''
              @ azureOpenAIApiVersion env,
      http_method = ''POST'',
      headers = [(''Content-Type'', ''application/json''), (''api-key'', azureOpenAIKey env)],
      body = JObj (azure_payload env prompt chatHistory options)\<rparr>"

definition integer_text :: "string \<Rightarrow> int option" where
  \<comment> \<open>the number that text denotes when compared with a number: white space around
      an optional sign and decimal digits; empty text is 0. Other numeric literals are
      outside the integers of the model and are taken as \<^verbatim>\<open>NaN\<close>.\<close>
  "integer_text s =
     (let t = trim s;
          u = (if t \<noteq> [] \<and> (hd t = CHR ''-'' \<or> hd t = CHR ''+'') then tl t else t)
      in if t = [] then Some 0
         else if u \<noteq> [] \<and> list_all is_digit u
         then Some ((if hd t = CHR ''-'' then - 1 else 1) * int (digits_value 10 u))
         else None)"

fun positive :: "json \<Rightarrow> js_error + bool" where
  \<comment> \<open>\<^verbatim>\<open>v > 0\<close>; an array or object is compared through its text\<close>
  "positive (JNum n) = Inr (0 < n)"
| "positive (JBool b) = Inr b"
| "positive (JStr s) = Inr (case integer_text s of Some n \<Rightarrow> 0 < n | None \<Rightarrow> False)"
| "positive (JArr xs) =
     bind_e (to_text (JArr xs))
       (\<lambda>s. Inr (case integer_text s of Some n \<Rightarrow> 0 < n | None \<Rightarrow> False))"
| "positive (JObj kvs) = bind_e (to_text (JObj kvs)) (\<lambda>s. Inr False)"
| "positive _ = Inr False"

fun join_lines :: "string list \<Rightarrow> string" where
  \<comment> \<open>\<^verbatim>\<open>.join('\n')\<close>\<close>
  "join_lines [] = []"
| "join_lines [s] = s"
| "join_lines (s # t # ts) = s @ [CHR 0x0A] @ join_lines (t # ts)"

definition block_text :: "json \<Rightarrow> string" where
  \<comment> \<open>the text that one block of an array content contributes: the block when it is a
      string, else its member \<^verbatim>\<open>text\<close> when that is a string, else its member
      \<^verbatim>\<open>content\<close> when that is a string, else nothing; the members are looked at
      only of a block that is truthy (\<^verbatim>\<open>block && typeof block.text === 'string'\<close>)\<close>
  "block_text block =
     (case block of
        JStr s \<Rightarrow> s
      | _ \<Rightarrow>
          (case js_and block (property block ''text'') of
             JStr text \<Rightarrow> text
           | _ \<Rightarrow>
               (case js_and block (property block ''content'') of
                  JStr text \<Rightarrow> text
                | _ \<Rightarrow> [])))"

fun message_content :: "json \<Rightarrow> json" where
  \<comment> \<open>``Handle different content formats'': from \<^verbatim>\<open>message.content\<close> to
      \<^verbatim>\<open>content\<close>. The cases in the order of the source: a string; an array; a value
      that is truthy and of type object, which leaves the objects; anything else.\<close>
  "message_content (JStr s) = JStr s"
| "message_content (JArr blocks) = JStr (join_lines (map block_text blocks))"
| "message_content (JObj kvs) =
     js_or (js_or (property (JObj kvs) ''text'') (property (JObj kvs) ''content'')) (JStr [])"
| "message_content _ = JStr []"

definition azure_extract :: "json \<Rightarrow> js_error + azure_result" where
  \<comment> \<open>``Extract response content and citations''\<close>
  "azure_extract responseData =
     bind_e (get responseData ''choices'') (\<lambda>choices.
     bind_e (if truthy choices then positive (property choices ''length'') else Inr False) (\<lambda>some.
       if some
       then
         (let choice = property choices ''0''
          in bind_e (get choice ''message'') (\<lambda>message.
             bind_e (get message ''content'') (\<lambda>c.
               (let result = \<lparr>content = js_or (message_content c) (JStr []), citations = JNull\<rparr>;
                    found = js_and (property message ''context'')
                                   (property (property message ''context'') ''citations'')
                in Inr (if truthy found then result\<lparr>citations := found\<rparr> else result)))))
       else Inl (Error (''Invalid response format from Azure OpenAI API: ''
                        @ JSON_stringify responseData))))"

definition callAzureOpenAI ::
  "env \<Rightarrow> fetch \<Rightarrow> string \<Rightarrow> json list \<Rightarrow> options \<Rightarrow> js_error + azure_result" where
  "callAzureOpenAI env fetch prompt chatHistory options =
     (if azureOpenAIEndpoint env = [] \<or> azureOpenAIKey env = [] \<or> select_model env options = []
      then Inl (Error (''Azure OpenAI configuration incomplete. Required: ''
                       @ ''AZURE_OPENAI_ENDPOINT (or AZURE_OPENAI_RESOURCE), AZURE_OPENAI_KEY, ''
                       @ ''AZURE_OPENAI_MODEL''))
      else
        bind_e (fetch (azure_request env prompt chatHistory options)) (\<lambda>response.
          if status response \<noteq> 200
          then Inl (Error (''Azure OpenAI API request failed with code ''
                           @ number_text (status response) @ '': '' @ response_text response))
          else bind_e (json_of response) azure_extract))"

section \<open>The reply envelope\<close>

definition createChatResponse :: "json \<Rightarrow> json" where
  "createChatResponse text =
     JObj [(''hostAppDataAction'',
       JObj [(''chatDataAction'',
         JObj [(''createMessageAction'',
           JObj [(''message'',
             JObj [(''text'', text)])])])])]"

section \<open>The wiki and ChatGPT handlers\<close>

definition doc_marker :: "string \<Rightarrow> nat option" where
  \<comment> \<open>\<^verbatim>\<open>/\[doc\s*\d+\]/i\<close>\<close>
  "doc_marker s =
     (let r = drop 4 s;
          ws = takeWhile is_space r;
          ds = takeWhile is_digit (dropWhile is_space r);
          r' = dropWhile is_digit (dropWhile is_space r)
      in if toLowerCase (take 4 s) = ''[doc'' \<and> ds \<noteq> [] \<and> r' \<noteq> [] \<and> hd r' = CHR '']''
         then Some (4 + length ws + length ds + 1) else None)"







section \<open>The world outside the program\<close>

text \<open>
  What the program gets from its runtime and from the network is a parameter: the
  replies of \<^verbatim>\<open>fetch\<close>, the access token of the Google credentials, the identifiers
  that the successive calls of \<^verbatim>\<open>crypto.randomUUID\<close> return, the clock in the two
  formats the code asks for, and the library functions behind the signature
  (\<^verbatim>\<open>Buffer.from(key, 'base64')\<close>, HMAC-SHA256, and the base64 encoding of a digest).
  Byte strings are strings.
\<close>

record world =
  net :: fetch
  accessToken :: "js_error + json"
  randomUUID :: "nat \<Rightarrow> string"
  toUTCString :: string
  toISOString :: string
  base64_decode :: "string \<Rightarrow> string"
  base64_encode :: "string \<Rightarrow> string"
  hmac_sha256 :: "string \<Rightarrow> string \<Rightarrow> string"

section \<open>The CosmosDB history store\<close>

record auth_data =
  auth :: string
  date :: string

definition generateCosmosDBAuthHeader ::
  "world \<Rightarrow> string \<Rightarrow> string \<Rightarrow> string \<Rightarrow> string \<Rightarrow> string \<Rightarrow> auth_data" where
  "generateCosmosDBAuthHeader w verb resourceType key database container =
     (let date = toUTCString w;
          resourceId =
            (if resourceType = ''docs'' then ''dbs/'' @ database @ ''/colls/'' @ container
             else resourceType);
          stringToSign =
            toLowerCase verb @ [CHR 0x0A] @ resourceType @ [CHR 0x0A] @ resourceId
            @ [CHR 0x0A, CHR 0x0A] @ toLowerCase date @ [CHR 0x0A];
          keyBuffer = base64_decode w key;
          signature = base64_encode w (hmac_sha256 w keyBuffer stringToSign);
          authType = ''master'';
          tokenVersion = ''1.0''
      in \<lparr>auth = ''type='' @ authType @ ''&ver='' @ tokenVersion @ ''&sig='' @ signature,
          date = date\<rparr>)"

definition cosmos_configured :: "env \<Rightarrow> bool" where
  \<comment> \<open>the negation of
      \<^verbatim>\<open>!cosmosAccount || !cosmosDatabase || !cosmosContainer || !cosmosKey\<close>\<close>
  "cosmos_configured env \<longleftrightarrow>
     azureCosmosDBAccount env \<noteq> [] \<and> azureCosmosDBDatabase env \<noteq> []
     \<and> azureCosmosDBConversationsContainer env \<noteq> [] \<and> azureCosmosDBAccountKey env \<noteq> []"

definition cosmos_url :: "env \<Rightarrow> string" where
  "cosmos_url env =
     ''https://'' @ azureCosmosDBAccount env @ ''.documents.azure.com:443/'' @ ''dbs/''
     @ azureCosmosDBDatabase env @ ''/colls/'' @ azureCosmosDBConversationsContainer env @ ''/docs''"

definition partition_key :: "string \<Rightarrow> string" where
  \<comment> \<open>the template \<^verbatim>\<open>["${userId}"]\<close>\<close>
  "partition_key userId = ''['' @ [CHR 0x22] @ userId @ [CHR 0x22] @ '']''"

definition conversation_request :: "env \<Rightarrow> world \<Rightarrow> string \<Rightarrow> string \<Rightarrow> http_request" where
  "conversation_request env w userId title =
     (let conversation =
            JObj [(''id'', JStr (randomUUID w 0)),
                  (''type'', JStr ''conversation''),
                  (''createdAt'', JStr (toISOString w)),
                  (''updatedAt'', JStr (toISOString w)),
                  (''userId'', JStr userId),
                  (''title'', JStr (if title \<noteq> [] then title else ''New Conversation''))];
          authData = generateCosmosDBAuthHeader w ''POST'' ''docs'' (azureCosmosDBAccountKey env)
                       (azureCosmosDBDatabase env) (azureCosmosDBConversationsContainer env)
      in \<lparr>url = cosmos_url env,
          http_method = ''POST'',
          headers = [(''Content-Type'', ''application/json''),
                     (''x-ms-documentdb-partitionkey'', partition_key userId),
                     (''x-ms-version'', ''2018-12-31''),
                     (''Authorization'', auth authData),
                     (''Date'', date authData)],
          body = conversation\<rparr>)"

definition getOrCreateConversation_try :: "env \<Rightarrow> world \<Rightarrow> string \<Rightarrow> string \<Rightarrow> js_error + json" where
  \<comment> \<open>the \<^verbatim>\<open>try\<close> block; \<open>randomUUID w 0\<close> is the identifier of the new conversation\<close>
  "getOrCreateConversation_try env w userId title =
     bind_e (net w (conversation_request env w userId title)) (\<lambda>response.
       if status response = 201 \<or> status response = 200
       then bind_e (json_of response) (\<lambda>result. get result ''id'')
       else Inr (JStr (randomUUID w 0)))"

definition getOrCreateConversation :: "env \<Rightarrow> world \<Rightarrow> string \<Rightarrow> string \<Rightarrow> string \<Rightarrow> json" where
  \<comment> \<open>a conversation identifier that is not given is the empty string; the identifier of
      the \<^verbatim>\<open>catch\<close> block is the second one that is drawn\<close>
  "getOrCreateConversation env w userId conversationId title =
     (if conversationId \<noteq> [] then JStr conversationId
      else if \<not> cosmos_configured env then JStr (randomUUID w 0)
      else (case getOrCreateConversation_try env w userId title of
              Inr v \<Rightarrow> v
            | Inl error \<Rightarrow> JStr (randomUUID w 1)))"

definition history_request :: "env \<Rightarrow> world \<Rightarrow> string \<Rightarrow> string \<Rightarrow> http_request" where
  "history_request env w userId conversationId =
     (let query =
            JObj [(''query'',
                   JStr (''SELECT * FROM c WHERE c.conversationId = @conversationId AND ''
                         @ ''c.type = @type AND c.userId = @userId ORDER BY c.createdAt ASC'')),
                  (''parameters'',
                   JArr [JObj [(''name'', JStr ''@conversationId''), (''value'', JStr conversationId)],
                         JObj [(''name'', JStr ''@type''), (''value'', JStr ''message'')],
                         JObj [(''name'', JStr ''@userId''), (''value'', JStr userId)]])];
          authData = generateCosmosDBAuthHeader w ''POST'' ''docs'' (azureCosmosDBAccountKey env)
                       (azureCosmosDBDatabase env) (azureCosmosDBConversationsContainer env)
      in \<lparr>url = cosmos_url env,
          http_method = ''POST'',
          headers = [(''Content-Type'', ''application/query+json''),
                     (''x-ms-documentdb-partitionkey'', partition_key userId),
                     (''x-ms-version'', ''2018-12-31''),
                     (''x-ms-documentdb-query-enablecrosspartition'', ''true''),
                     (''x-ms-documentdb-isquery'', ''true''),
                     (''Authorization'', auth authData),
                     (''Date'', date authData)],
          body = query\<rparr>)"

definition history_message :: "json \<Rightarrow> js_error + json" where
  \<comment> \<open>\<^verbatim>\<open>{ role: doc.role, content: doc.content }\<close>\<close>
  "history_message doc =
     bind_e (get doc ''role'') (\<lambda>role.
     bind_e (get doc ''content'') (\<lambda>content.
       Inr (JObj [(''role'', role), (''content'', content)])))"

definition code_points :: "string \<Rightarrow> json list" where
  \<comment> \<open>what a \<^verbatim>\<open>for ... of\<close> loop over a string goes through: one string for each
      character, that is for each byte that is not a continuation byte of UTF-8. Only the
      number of the elements matters below: no member of them is ever defined.\<close>
  "code_points s =
     map (\<lambda>c. JStr [c]) (filter (\<lambda>c. \<not> (128 \<le> (of_char c :: nat) \<and> (of_char c :: nat) < 192)) s)"

definition history_documents :: "json \<Rightarrow> js_error + json list" where
  \<comment> \<open>the elements that \<^verbatim>\<open>for (const doc of result.Documents)\<close> goes through\<close>
  "history_documents documents =
     (case documents of
        JArr docs \<Rightarrow> Inr docs
      | JStr s \<Rightarrow> Inr (code_points s)
      | _ \<Rightarrow> Inl (TypeError ''result.Documents is not iterable''))"

definition getChatHistory_try :: "env \<Rightarrow> world \<Rightarrow> string \<Rightarrow> string \<Rightarrow> js_error + json list" where
  "getChatHistory_try env w userId conversationId =
     bind_e (net w (history_request env w userId conversationId)) (\<lambda>response.
       if status response = 200
       then
         bind_e (json_of response) (\<lambda>result.
         bind_e (get result ''Documents'') (\<lambda>documents.
           bind_e (if truthy documents then positive (property documents ''length'') else Inr False)
             (\<lambda>some. if some
                     then bind_e (history_documents documents) (collect history_message)
                     else Inr [])))
       else Inl (Error (''CosmosDB error: '' @ response_text response)))"

definition getChatHistory :: "env \<Rightarrow> world \<Rightarrow> string \<Rightarrow> string \<Rightarrow> js_error + json list" where
  \<comment> \<open>the \<^verbatim>\<open>catch\<close> block throws the error it caught\<close>
  "getChatHistory env w userId conversationId =
     (if \<not> cosmos_configured env then Inr []
      else (case getChatHistory_try env w userId conversationId of
              Inr messages \<Rightarrow> Inr messages
            | Inl error \<Rightarrow> Inl error))"

definition saveMessageToHistory_try ::
  "env \<Rightarrow> world \<Rightarrow> string \<Rightarrow> string \<Rightarrow> string \<Rightarrow> string \<Rightarrow> js_error + unit" where
  "saveMessageToHistory_try env w userId conversationId role content' =
     (let msg =
            JObj [(''id'', JStr (randomUUID w 0)),
                  (''type'', JStr ''message''),
                  (''userId'', JStr userId),
                  (''createdAt'', JStr (toISOString w)),
                  (''updatedAt'', JStr (toISOString w)),
                  (''conversationId'', JStr conversationId),
                  (''role'', JStr role),
                  (''content'', JStr content')];
          authData = generateCosmosDBAuthHeader w ''POST'' ''docs'' (azureCosmosDBAccountKey env)
                       (azureCosmosDBDatabase env) (azureCosmosDBConversationsContainer env)
      in bind_e (net w \<lparr>url = cosmos_url env,
                        http_method = ''POST'',
                        headers = [(''Content-Type'', ''application/json''),
                                   (''x-ms-documentdb-partitionkey'', partition_key userId),
                                   (''x-ms-version'', ''2018-12-31''),
                                   (''Authorization'', auth authData),
                                   (''Date'', date authData)],
                        body = msg\<rparr>)
           (\<lambda>response. Inr ()))"

definition saveMessageToHistory :: "env \<Rightarrow> world \<Rightarrow> string \<Rightarrow> string \<Rightarrow> string \<Rightarrow> string \<Rightarrow> unit" where
  \<comment> \<open>nothing is returned, and both failures are only logged\<close>
  "saveMessageToHistory env w userId conversationId role content' =
     (if \<not> cosmos_configured env then ()
      else (case saveMessageToHistory_try env w userId conversationId role content' of
              Inr u \<Rightarrow> u
            | Inl error \<Rightarrow> ()))"

section \<open>The help message\<close>








section \<open>The Gemini client\<close>






section \<open>The event handlers\<close>
















section \<open>The HTTP handler\<close>

record http_reply =
  code :: int
  sent :: json



section \<open>Notions used to state the properties of the Azure OpenAI client\<close>



text \<open>
  The configuration of the example file, with the keys left out.
\<close>

definition example_env :: env where
  "example_env =
     \<lparr>projectID = ''sto-ai'', location = ''us-west3'', geminiApiKey = ''secret'',
      geminiApiUrl = ''https://generativelanguage.googleapis.com/v1beta/models/gemini-3-pro-preview:generateContent'',
      azureOpenAIEndpoint = ''https://ai-service.openai.azure.com/'', azureOpenAIKey = ''secret'',
      azureOpenAIModel = ''gpt-5.1'', azureSearchOpenAIModel = ''gpt-4o'',
      azureOpenAIApiVersion = ''2024-12-01-preview'', azureOpenAITemperature = JNum 0,
      azureOpenAIMaxTokens = JNum 2000, azureOpenAITopP = JNum 1,
      azureOpenAISystemMessage = ''You are an AI assistant for System Administrators.'',
      azureOpenAIEmbeddingName = [], azureSearchService = ''ai-search'', azureSearchIndex = ''wiki'',
      azureSearchKey = ''secret'', azureSearchQueryType = ''simple'', azureSearchTopK = JNum 5,
      azureSearchStrictness = JNum 3, azureSearchEnableInDomain = True,
      azureSearchSemanticSearchConfig = ''default'', azureSearchContentColumns = [],
      azureSearchVectorColumns = [], azureSearchTitleColumn = [], azureSearchUrlColumn = [],
      azureSearchFilenameColumn = [], searchMaxSearchQueries = [], searchAllowPartialResult = False,
      searchIncludeContexts = JUndefined, searchVectorizationDimensions = [],
      azureCosmosDBAccount = ''db-chatbot'', azureCosmosDBDatabase = ''db_conversation_history'',
      azureCosmosDBConversationsContainer = ''conversations'', azureCosmosDBAccountKey = ''c2VjcmV0''\<rparr>"

text \<open>
  The configuration passes the check of \<^verbatim>\<open>callAzureOpenAI\<close>. A response body with one
  answer, and the network that always replies with a given body and status 200.
\<close>

definition configured :: "env \<Rightarrow> options \<Rightarrow> bool" where
  "configured env options \<longleftrightarrow>
     azureOpenAIEndpoint env \<noteq> [] \<and> azureOpenAIKey env \<noteq> [] \<and> select_model env options \<noteq> []"


definition replying :: "json \<Rightarrow> fetch" where
  "replying responseData =
     (\<lambda>request. Inr \<lparr>status = 200, response_text = JSON_stringify responseData,
                      response_json = Some responseData\<rparr>)"

text \<open>
  The content of a reply as the specification describes it: the content itself when it
  is a string; the texts of the blocks, joined with line feeds, when it is an array, a
  block giving itself when it is a string, else its \<^verbatim>\<open>text\<close> member when that is a
  string, else its \<^verbatim>\<open>content\<close> member when that is a string, else the empty string;
  the \<^verbatim>\<open>text\<close> or else the \<^verbatim>\<open>content\<close> member when it is an object; the empty
  string in every other case. The citations of a message are the value at
  \<^verbatim>\<open>context.citations\<close> when there is one, else \<^verbatim>\<open>null\<close>.
\<close>

fun described_block :: "json \<Rightarrow> string" where
  "described_block (JStr s) = s"
| "described_block (JObj kvs) =
     (case lookup kvs ''text'' of
        JStr t \<Rightarrow> t
      | _ \<Rightarrow> (case lookup kvs ''content'' of JStr c \<Rightarrow> c | _ \<Rightarrow> []))"
| "described_block _ = []"

fun described_content :: "json \<Rightarrow> json" where
  "described_content (JStr s) = JStr s"
| "described_content (JArr blocks) = JStr (join_lines (map described_block blocks))"
| "described_content (JObj kvs) =
     (if truthy (lookup kvs ''text'') then lookup kvs ''text''
      else if truthy (lookup kvs ''content'') then lookup kvs ''content''
      else JStr [])"
| "described_content _ = JStr []"

definition found_citations :: "json \<Rightarrow> json" where
  "found_citations msg =
     (if truthy (property msg ''context'')
         \<and> truthy (property (property msg ''context'') ''citations'')
      then property (property msg ''context'') ''citations'' else JNull)"

definition blocks_body :: json where
  "blocks_body =
     JObj [(''choices'', JArr [JObj [(''message'', JObj [(''content'',
       JArr [JStr ''one'', JObj [(''text'', JStr ''two'')], JObj [(''content'', JStr ''three'')],
             JNum 4])])]])]"






text \<open>
  The string that is signed, in the words of the specification, and two worlds: one
  whose network fails, and one whose network answers every request with status 503.
\<close>

definition canonical_string :: "string \<Rightarrow> string \<Rightarrow> string \<Rightarrow> string \<Rightarrow> string" where
  "canonical_string verb resourceType resourceId rfc1123 =
     toLowerCase verb @ [CHR 0x0A] @ resourceType @ [CHR 0x0A] @ resourceId @ [CHR 0x0A]
     @ [CHR 0x0A] @ toLowerCase rfc1123 @ [CHR 0x0A]"

definition example_world :: world where
  "example_world =
     \<lparr>net = (\<lambda>request. Inl (TypeError ''fetch failed'')),
      accessToken = Inr (JStr ''ya29.token''),
      randomUUID = (\<lambda>n. if n = 0 then ''9b2f6c1e-0000-4000-8000-000000000000''
                          else ''9b2f6c1e-0000-4000-8000-000000000001''),
      toUTCString = ''Mon, 02 Nov 2026 10:00:00 GMT'',
      toISOString = ''2026-11-02T10:00:00.000Z'',
      base64_decode = (\<lambda>s. s),
      base64_encode = (\<lambda>s. s),
      hmac_sha256 = (\<lambda>k m. k @ '':'' @ m)\<rparr>"

definition failing_world :: world where
  "failing_world = example_world\<lparr>net := (\<lambda>request. Inr \<lparr>status = 503, response_text = ''Service Unavailable'', response_json = None\<rparr>)\<rparr>"


text \<open>
  The text of a reply, read along the four levels of the envelope; a value is a reply
  envelope when it is exactly the envelope around its text, which is a string. A
  \<^verbatim>\<open>MESSAGE\<close> event with a given value as the text of its message.
\<close>

definition reply_text :: "json \<Rightarrow> string option" where
  "reply_text reply =
     (case property (property (property (property (property reply ''hostAppDataAction'')
             ''chatDataAction'') ''createMessageAction'') ''message'') ''text'' of
        JStr text \<Rightarrow> Some text
      | _ \<Rightarrow> None)"

definition is_envelope :: "json \<Rightarrow> bool" where
  "is_envelope reply \<longleftrightarrow>
     (case reply_text reply of
        Some text \<Rightarrow> reply = createChatResponse (JStr text)
      | None \<Rightarrow> False)"


section \<open>Properties of the text cleaning\<close>

lemma has_match_iff: "has_match m s \<longleftrightarrow> (\<exists>p x. s = p @ x \<and> m x \<noteq> None)"
proof (induction s)
  case Nil
  then show ?case by simp
next
  case (Cons c cs)
  show ?case
  proof
    assume "has_match m (c # cs)"
    then consider "m (c # cs) \<noteq> None" | "has_match m cs" by auto
    then show "\<exists>p x. c # cs = p @ x \<and> m x \<noteq> None"
    proof cases
      case 1
      then show ?thesis by (metis append_Nil)
    next
      case 2
      with Cons obtain p x where "cs = p @ x" "m x \<noteq> None" by auto
      then show ?thesis by (metis append_Cons)
    qed
  next
    assume "\<exists>p x. c # cs = p @ x \<and> m x \<noteq> None"
    then obtain p x where px: "c # cs = p @ x" "m x \<noteq> None" by auto
    show "has_match m (c # cs)"
    proof (cases p)
      case Nil
      with px have "m (c # cs) \<noteq> None" by simp
      then show ?thesis by simp
    next
      case (Cons a p')
      with px have "cs = p' @ x" by simp
      with px(2) Cons.IH show ?thesis by auto
    qed
  qed
qed

lemma replace_g_no_match: "\<not> has_match m s \<Longrightarrow> replace_g m r s = s"
  by (induction s) auto

lemma at_mention_Some_ge: "at_mention s = Some n \<Longrightarrow> 2 \<le> n"
  by (cases s) (auto simp: at_mention_def Let_def Suc_le_eq split: if_splits)


lemma has_match_suffix: "has_match m x \<Longrightarrow> has_match m (p @ x)"
  unfolding has_match_iff by (metis append.assoc)

lemma has_match_here: "m s \<noteq> None \<Longrightarrow> has_match m s"
  by (cases s) auto

lemma at_mention_None_space: "is_space c \<Longrightarrow> at_mention (c # cs) = None"
  by (auto simp: at_mention_def is_space_def)

lemma at_mention_Cons:
  "at_mention (c # cs) \<noteq> None \<longleftrightarrow> c = CHR ''@'' \<and> cs \<noteq> [] \<and> \<not> is_space (hd cs)"
  by (cases cs) (auto simp: at_mention_def Let_def)

lemma at_mention_Nil [simp]: "at_mention [] = None"
  by (simp add: at_mention_def)

lemma replace_at_hd:
  "cs \<noteq> [] \<Longrightarrow> is_space (hd cs) \<Longrightarrow>
   replace_g at_mention [] cs \<noteq> [] \<and> is_space (hd (replace_g at_mention [] cs))"
  by (cases cs) (auto simp: at_mention_None_space)

lemma at_free_replace_at: "\<not> has_match at_mention (replace_g at_mention [] s)"
proof (induction at_mention "[] :: string" s rule: replace_g.induct)
  case 1
  then show ?case by simp
next
  case (2 c cs)
  show ?case
  proof (cases "at_mention (c # cs)")
    case None
    have here: "at_mention (c # replace_g at_mention [] cs) = None"
    proof (rule ccontr)
      assume "at_mention (c # replace_g at_mention [] cs) \<noteq> None"
      then have "c = CHR ''@'' \<and> replace_g at_mention [] cs \<noteq> []
        \<and> \<not> is_space (hd (replace_g at_mention [] cs))"
        by (rule at_mention_Cons [THEN iffD1])
      then have c: "c = CHR ''@''" and ne: "replace_g at_mention [] cs \<noteq> []"
        and ns: "\<not> is_space (hd (replace_g at_mention [] cs))"
        by blast+
      from ne have "cs \<noteq> []" by auto
      with None c have "is_space (hd cs)" using at_mention_Cons [of c cs] by auto
      with \<open>cs \<noteq> []\<close> ns show False using replace_at_hd by blast
    qed
    with None 2(1) show ?thesis by simp
  next
    case (Some n)
    then have "2 \<le> n" by (rule at_mention_Some_ge)
    then obtain k where n: "n = Suc k" by (cases n) auto
    with Some 2(3) show ?thesis by simp
  qed
qed


lemma trim_tight_id: "tight s \<Longrightarrow> trim s = s"
proof (cases "s = []")
  case True
  then show ?thesis by (simp add: trim_def)
next
  case False
  assume "tight s"
  with False have h: "\<not> is_space (hd s)" and l: "\<not> is_space (last s)"
    by (auto simp: tight_def)
  from False h have 1: "dropWhile is_space s = s" by (cases s) auto
  from False l have "dropWhile is_space (rev s) = rev s"
    by (cases "rev s") (auto simp: last_rev [symmetric] hd_rev)
  with 1 show ?thesis by (simp add: trim_def)
qed

lemma trim_decomp:
  "\<exists>p w. s = p @ trim s @ w \<and> (\<forall>c\<in>set p. is_space c) \<and> (\<forall>c\<in>set w. is_space c)"
proof -
  let ?u = "dropWhile is_space s"
  have 1: "s = takeWhile is_space s @ ?u" by simp
  have 2: "rev ?u = takeWhile is_space (rev ?u) @ dropWhile is_space (rev ?u)" by simp
  then have "?u = rev (dropWhile is_space (rev ?u)) @ rev (takeWhile is_space (rev ?u))"
    by (metis rev_append rev_rev_ident)
  then have "?u = trim s @ rev (takeWhile is_space (rev ?u))" by (simp add: trim_def)
  with 1 have "s = takeWhile is_space s @ trim s @ rev (takeWhile is_space (rev ?u))" by simp
  moreover have "\<forall>c\<in>set (takeWhile is_space s). is_space c" by (auto dest: set_takeWhileD)
  moreover have "\<forall>c\<in>set (rev (takeWhile is_space (rev ?u))). is_space c"
    by (auto dest: set_takeWhileD)
  ultimately show ?thesis by blast
qed

lemma tight_trim: "tight (trim s)"
proof (cases "trim s = []")
  case True
  then show ?thesis by (simp add: tight_def)
next
  case False
  let ?u = "dropWhile is_space s"
  let ?r = "dropWhile is_space (rev ?u)"
  from False have r: "?r \<noteq> []" by (simp add: trim_def)
  then have hr: "\<not> is_space (hd ?r)" by (metis hd_dropWhile)
  have u: "?u \<noteq> []"
  proof
    assume "?u = []"
    with r show False by simp
  qed
  then have hu: "\<not> is_space (hd ?u)" by (metis hd_dropWhile)
  have "last ?r = last (rev ?u)"
    by (metis r takeWhile_dropWhile_id last_appendR)
  with u have lr: "last ?r = hd ?u" by (simp add: last_rev)
  have "hd (trim s) = last ?r" using r by (simp add: trim_def hd_rev)
  moreover have "last (trim s) = hd ?r" using r by (simp add: trim_def last_rev)
  ultimately show ?thesis using hr hu lr False by (simp add: tight_def)
qed

lemma trim_idem: "trim (trim s) = trim s"
  by (rule trim_tight_id) (rule tight_trim)

lemma at_mention_append: "at_mention x \<noteq> None \<Longrightarrow> at_mention (x @ w) \<noteq> None"
  by (cases x) (auto simp: at_mention_Cons simp del: not_None_eq)

lemma has_match_at_append: "has_match at_mention v \<Longrightarrow> has_match at_mention (v @ w)"
proof -
  assume "has_match at_mention v"
  then obtain p x where "v = p @ x" "at_mention x \<noteq> None" unfolding has_match_iff by blast
  then have "v @ w = p @ (x @ w)" "at_mention (x @ w) \<noteq> None"
    by (simp_all add: at_mention_append del: not_None_eq)
  then show ?thesis unfolding has_match_iff by blast
qed

lemma at_free_trim: "\<not> has_match at_mention s \<Longrightarrow> \<not> has_match at_mention (trim s)"
proof -
  obtain p w where "s = p @ trim s @ w" using trim_decomp by blast
  then show "\<not> has_match at_mention s \<Longrightarrow> \<not> has_match at_mention (trim s)"
    by (metis has_match_at_append has_match_suffix)
qed


lemma at_free_clean: "\<not> has_match at_mention (cleanMessageText t)"
  unfolding cleanMessageText_def by (rule at_free_trim) (rule at_free_replace_at)

lemma clean_fixpoint:
  assumes "\<not> has_match bracket_mention (cleanMessageText t)"
  shows "cleanMessageText (cleanMessageText t) = cleanMessageText t"
proof -
  let ?u = "cleanMessageText t"
  have "replace_g bracket_mention [] ?u = ?u" using assms by (rule replace_g_no_match)
  moreover have "replace_g at_mention [] ?u = ?u" using at_free_clean by (rule replace_g_no_match)
  moreover have "trim ?u = ?u" by (simp add: cleanMessageText_def trim_idem)
  ultimately show ?thesis by (simp add: cleanMessageText_def [of ?u])
qed

lemma replace_g_length_le:
  "(\<And>x n. m x = Some n \<Longrightarrow> length r \<le> n \<and> n \<le> length x) \<Longrightarrow>
   length (replace_g m r s) \<le> length s"
proof (induction m r s rule: replace_g.induct)
  case (1 m r)
  show ?case
  proof (cases "m []")
    case None
    then show ?thesis by simp
  next
    case (Some n)
    with 1 [of "[]" n] have "r = []" by auto
    with Some show ?thesis by simp
  qed
next
  case (2 m r c cs)
  show ?case
  proof (cases "m (c # cs)")
    case None
    with 2 show ?thesis by simp
  next
    case (Some n)
    show ?thesis
    proof (cases n)
      case 0
      with Some 2(4) [of "c # cs" 0] have "r = []" by simp
      with Some 0 2 show ?thesis by simp
    next
      case (Suc k)
      from Some 2(4) [of "c # cs" n] have "length r \<le> n" "n \<le> Suc (length cs)" by auto
      moreover from Some Suc 2(3) 2(4) have "length (replace_g m r (drop k cs)) \<le> length (drop k cs)"
        by blast
      ultimately show ?thesis using Some Suc by simp
    qed
  qed
qed

lemma replace_g_length_less:
  "(\<And>x n. m x = Some n \<Longrightarrow> 0 < n \<and> n \<le> length x) \<Longrightarrow> has_match m s \<Longrightarrow>
   length (replace_g m [] s) < length s"
proof (induction m "[] :: string" s rule: replace_g.induct)
  case (1 m)
  show ?case
  proof (cases "m []")
    case None
    with 1(2) show ?thesis by simp
  next
    case (Some n)
    with 1(1) [of "[]" n] show ?thesis by auto
  qed
next
  case (2 m c cs)
  show ?case
  proof (cases "m (c # cs)")
    case None
    with 2 show ?thesis by simp
  next
    case (Some n)
    with 2(4) [of "c # cs" n] obtain k where n: "n = Suc k" and le: "k \<le> length cs"
      by (cases n) auto
    have "length (replace_g m [] (drop k cs)) \<le> length (drop k cs)"
      by (rule replace_g_length_le) (use 2(4) in auto)
    with Some n show ?thesis by simp
  qed
qed

lemma bracket_mention_Some: "bracket_mention x = Some n \<Longrightarrow> 0 < n \<and> n \<le> length x"
  by (auto simp: bracket_mention_def Let_def split: list.splits if_splits)

lemma at_mention_Some: "at_mention x = Some n \<Longrightarrow> 0 \<le> n \<and> n \<le> length x"
proof (cases x)
  case Nil
  assume "at_mention x = Some n"
  with Nil show ?thesis by simp
next
  case (Cons c rest)
  assume "at_mention x = Some n"
  with Cons have n: "n = 1 + length (takeWhile (\<lambda>c. \<not> is_space c) rest)
      + length (takeWhile is_space (dropWhile (\<lambda>c. \<not> is_space c) rest))"
    by (auto simp: at_mention_def Let_def split: if_splits)
  have "length (takeWhile is_space (dropWhile (\<lambda>c. \<not> is_space c) rest))
        \<le> length (dropWhile (\<lambda>c. \<not> is_space c) rest)"
    by (rule length_takeWhile_le)
  moreover have "length (takeWhile (\<lambda>c. \<not> is_space c) rest) + length (dropWhile (\<lambda>c. \<not> is_space c) rest)
       = length rest"
    by (metis length_append takeWhile_dropWhile_id)
  ultimately show ?thesis using n Cons by simp
qed

lemma trim_length_le: "length (trim s) \<le> length s"
  unfolding trim_def
  by (metis length_dropWhile_le length_rev le_trans)

lemma clean_length_le: "length (cleanMessageText s) \<le> length (replace_g bracket_mention [] s)"
proof -
  have "length (replace_g at_mention [] (replace_g bracket_mention [] s))
        \<le> length (replace_g bracket_mention [] s)"
    by (rule replace_g_length_le) (use at_mention_Some in auto)
  then show ?thesis unfolding cleanMessageText_def using trim_length_le le_trans by blast
qed

lemma clean_not_fixpoint:
  assumes "has_match bracket_mention s"
  shows "cleanMessageText s \<noteq> s"
proof -
  have "length (replace_g bracket_mention [] s) < length s"
    by (rule replace_g_length_less) (use assms bracket_mention_Some in auto)
  with clean_length_le [of s] show ?thesis by auto
qed


lemma space_run_Nil [simp]: "space_run [] = None"
  by (simp add: space_run_def)

lemma space_run_Cons:
  "space_run (c # cs) = (if is_space c then Some (Suc (length (takeWhile is_space cs))) else None)"
  by (simp add: space_run_def)

lemma space_run_Some: "space_run x = Some n \<Longrightarrow> length '' '' \<le> n \<and> n \<le> length x"
proof (cases x)
  case Nil
  assume "space_run x = Some n"
  with Nil show ?thesis by simp
next
  case (Cons c cs)
  assume "space_run x = Some n"
  with Cons have "n = Suc (length (takeWhile is_space cs))"
    by (simp add: space_run_Cons split: if_splits)
  with Cons show ?thesis using length_takeWhile_le [of is_space cs] by simp
qed

lemma collapse_Cons:
  "replace_g space_run '' '' (c # cs) =
     (if is_space c then CHR '' '' # replace_g space_run '' '' (dropWhile is_space cs)
      else c # replace_g space_run '' '' cs)"
  by (simp add: space_run_Cons dropWhile_eq_drop)

lemma is_space_blank [simp]: "is_space (CHR '' '')"
  by (simp add: is_space_def)

lemma collapse_hd:
  "replace_g space_run '' '' s = [] \<longleftrightarrow> s = []"
  "s \<noteq> [] \<Longrightarrow> is_space (hd (replace_g space_run '' '' s)) = is_space (hd s)"
  by (cases s; simp add: collapse_Cons del: replace_g.simps(2))+

lemma collapse_idem:
  "replace_g space_run '' '' (replace_g space_run '' '' s) = replace_g space_run '' '' s"
proof (induction s rule: length_induct)
  case (1 s)
  show ?case
  proof (cases s)
    case Nil
    then show ?thesis by simp
  next
    case (Cons c cs)
    show ?thesis
    proof (cases "is_space c")
      case False
      with Cons 1 show ?thesis by (simp add: collapse_Cons del: replace_g.simps(2))
    next
      case True
      let ?d = "dropWhile is_space cs"
      let ?Y = "replace_g space_run '' '' ?d"
      have len: "length ?d < length s" using Cons length_dropWhile_le [of is_space cs] by simp
      have "dropWhile is_space ?Y = ?Y"
      proof (cases "?d = []")
        case True
        then have "?Y = []" by (simp only: collapse_hd(1))
        then show ?thesis by simp
      next
        case False
        then have "\<not> is_space (hd ?d)" by (metis hd_dropWhile)
        with False have "\<not> is_space (hd ?Y)" "?Y \<noteq> []" by (simp_all add: collapse_hd del: replace_g.simps(2))
        then show ?thesis by (cases ?Y) auto
      qed
      moreover have "replace_g space_run '' '' ?Y = ?Y" using 1 len by blast
      ultimately show ?thesis using Cons True by (simp add: collapse_Cons del: replace_g.simps(2))
    qed
  qed
qed

lemma at_free_collapse:
  "\<not> has_match at_mention s \<Longrightarrow> \<not> has_match at_mention (replace_g space_run '' '' s)"
proof (induction s rule: length_induct)
  case (1 s)
  show ?case
  proof (cases s)
    case Nil
    then show ?thesis by simp
  next
    case (Cons c cs)
    show ?thesis
    proof (cases "is_space c")
      case True
      let ?d = "dropWhile is_space cs"
      have "s = (c # takeWhile is_space cs) @ ?d" using Cons by simp
      then have "\<not> has_match at_mention ?d" using 1(2) has_match_suffix by metis
      moreover have "length ?d < length s" using Cons length_dropWhile_le [of is_space cs] by simp
      ultimately have "\<not> has_match at_mention (replace_g space_run '' '' ?d)" using 1(1) by blast
      with Cons True show ?thesis by (simp add: collapse_Cons at_mention_None_space del: replace_g.simps(2))
    next
      case False
      from 1(2) Cons have here: "at_mention (c # cs) = None" and rest: "\<not> has_match at_mention cs"
        by auto
      from rest 1(1) Cons have ih: "\<not> has_match at_mention (replace_g space_run '' '' cs)" by simp
      have "at_mention (c # replace_g space_run '' '' cs) = None"
      proof (rule ccontr)
        assume "at_mention (c # replace_g space_run '' '' cs) \<noteq> None"
        then have "c = CHR ''@'' \<and> replace_g space_run '' '' cs \<noteq> []
          \<and> \<not> is_space (hd (replace_g space_run '' '' cs))"
          by (rule at_mention_Cons [THEN iffD1])
        then have "c = CHR ''@'' \<and> cs \<noteq> [] \<and> \<not> is_space (hd cs)"
          by (auto simp: collapse_hd)
        then have "at_mention (c # cs) \<noteq> None" by (rule at_mention_Cons [THEN iffD2])
        with here show False by simp
      qed
      with ih Cons False show ?thesis by (simp add: collapse_Cons del: replace_g.simps(2))
    qed
  qed
qed

lemma collapse_last:
  "s \<noteq> [] \<Longrightarrow> \<not> is_space (last s) \<Longrightarrow> last (replace_g space_run '' '' s) = last s"
proof (induction s rule: length_induct)
  case (1 s)
  then obtain c cs where s: "s = c # cs" by (cases s) auto
  show ?case
  proof (cases "cs = []")
    case True
    with s 1(3) show ?thesis by (simp add: collapse_Cons del: replace_g.simps(2))
  next
    case False
    with s 1(3) have lcs: "\<not> is_space (last cs)" by simp
    show ?thesis
    proof (cases "is_space c")
      case False
      have "last (replace_g space_run '' '' cs) = last cs" using 1(1) s \<open>cs \<noteq> []\<close> lcs by simp
      with s False \<open>cs \<noteq> []\<close> show ?thesis by (simp add: collapse_Cons collapse_hd del: replace_g.simps(2))
    next
      case True
      let ?d = "dropWhile is_space cs"
      have "cs = takeWhile is_space cs @ ?d" by simp
      have dne: "?d \<noteq> []"
      proof
        assume "?d = []"
        then have "\<forall>x\<in>set cs. is_space x" by (simp add: dropWhile_eq_Nil_conv)
        with \<open>cs \<noteq> []\<close> lcs show False using last_in_set by blast
      qed
      then have ld: "last ?d = last cs" by (metis last_appendR takeWhile_dropWhile_id)
      have "length ?d < length s" using s length_dropWhile_le [of is_space cs] by simp
      with 1(1) dne ld lcs have ly: "last (replace_g space_run '' '' ?d) = last ?d" by simp
      have e: "replace_g space_run '' '' s = CHR '' '' # replace_g space_run '' '' ?d"
        using s True by (simp add: collapse_Cons del: replace_g.simps(2))
      have yne: "replace_g space_run '' '' ?d \<noteq> []" using dne by (simp only: collapse_hd(1)) simp
      have "last (replace_g space_run '' '' s) = last (replace_g space_run '' '' ?d)"
        unfolding e using yne by (rule last_ConsR)
      also have "\<dots> = last cs" using ly ld by simp
      also have "\<dots> = last s" using s False by simp
      finally show ?thesis .
    qed
  qed
qed

lemma tight_collapse: "tight s \<Longrightarrow> tight (replace_g space_run '' '' s)"
  by (auto simp: tight_def collapse_hd collapse_last)


lemma at_free_command: "\<not> has_match at_mention (cleanCommandText t)"
  unfolding cleanCommandText_def by (rule at_free_collapse) (rule at_free_clean)

lemma tight_command: "tight (cleanCommandText t)"
  unfolding cleanCommandText_def cleanMessageText_def by (rule tight_collapse) (rule tight_trim)

lemma command_fixpoint:
  assumes "\<not> has_match bracket_mention (cleanCommandText t)"
  shows "cleanCommandText (cleanCommandText t) = cleanCommandText t"
proof -
  let ?u = "cleanCommandText t"
  have "replace_g bracket_mention [] ?u = ?u" using assms by (rule replace_g_no_match)
  moreover have "replace_g at_mention [] ?u = ?u" using at_free_command by (rule replace_g_no_match)
  moreover have "trim ?u = ?u" using tight_command by (rule trim_tight_id)
  ultimately have "cleanMessageText ?u = ?u" by (simp add: cleanMessageText_def)
  moreover have "replace_g space_run '' '' ?u = ?u"
    unfolding cleanCommandText_def by (rule collapse_idem)
  ultimately show ?thesis by (simp add: cleanCommandText_def [of ?u])
qed

lemma command_length_le: "length (cleanCommandText s) \<le> length (replace_g bracket_mention [] s)"
proof -
  have "length (cleanCommandText s) \<le> length (cleanMessageText s)"
    unfolding cleanCommandText_def by (rule replace_g_length_le) (rule space_run_Some)
  with clean_length_le [of s] show ?thesis by simp
qed

lemma command_not_fixpoint:
  assumes "has_match bracket_mention s"
  shows "cleanCommandText s \<noteq> s"
proof -
  have "length (replace_g bracket_mention [] s) < length s"
    by (rule replace_g_length_less) (use assms bracket_mention_Some in auto)
  with command_length_le [of s] show ?thesis by auto
qed

lemma bracket_mention_lt: "bracket_mention x \<noteq> None \<Longrightarrow> CHR ''<'' \<in> set x"
  by (auto simp: bracket_mention_def Let_def split: list.splits if_splits)

lemma no_lt_no_match: "CHR ''<'' \<notin> set s \<Longrightarrow> \<not> has_match bracket_mention s"
  unfolding has_match_iff using bracket_mention_lt by fastforce

lemma set_replace_g: "set (replace_g m r s) \<subseteq> set s \<union> set r"
proof (induction m r s rule: replace_g.induct)
  case (1 m r)
  then show ?case by (auto split: option.splits)
next
  case (2 m r c cs)
  show ?case
  proof (cases "m (c # cs)")
    case None
    with 2(1) show ?thesis by auto
  next
    case (Some n)
    show ?thesis
    proof (cases n)
      case 0
      with Some 2(2) show ?thesis by auto
    next
      case (Suc k)
      with Some 2(3) have "set (replace_g m r (drop k cs)) \<subseteq> set (drop k cs) \<union> set r" by simp
      moreover have "set (drop k cs) \<subseteq> set cs" by (rule set_drop_subset)
      ultimately show ?thesis using Some Suc by auto
    qed
  qed
qed

lemma set_trim: "set (trim s) \<subseteq> set s"
proof -
  obtain p w where "s = p @ trim s @ w" using trim_decomp by blast
  then have "set s = set p \<union> set (trim s) \<union> set w" by (metis set_append sup_assoc)
  then show ?thesis by blast
qed

lemma set_clean: "set (cleanMessageText t) \<subseteq> set t"
proof -
  have "set (replace_g at_mention [] (replace_g bracket_mention [] t)) \<subseteq> set t"
    using set_replace_g [of at_mention "[]"] set_replace_g [of bracket_mention "[]" t] by fastforce
  then show ?thesis unfolding cleanMessageText_def using set_trim by blast
qed

lemma set_command: "set (cleanCommandText t) \<subseteq> set t \<union> {CHR '' ''}"
  unfolding cleanCommandText_def
  using set_replace_g [of space_run "'' ''" "cleanMessageText t"] set_clean [of t] by auto

text \<open>
  Claim C9, as amended. Cleaning an already cleaned text changes nothing exactly when
  the cleaned text holds no bracketed mention \<^verbatim>\<open><@...>\<close>; this is so for both
  cleanings (the one of the event handlers and the one of the parser, which also
  collapses runs of white space), and in particular for every text without the
  character \<^verbatim>\<open><\<close>. The removal of the bare \<^verbatim>\<open>@token\<close> mentions, the trimming
  and the collapsing never leave work for a second pass; a bracketed mention can be
  left behind because each removal is a single pass.
\<close>

theorem cleaning_idempotent_iff:
  "(cleanMessageText (cleanMessageText t) = cleanMessageText t
      \<longleftrightarrow> \<not> has_match bracket_mention (cleanMessageText t))
   \<and> (cleanCommandText (cleanCommandText t) = cleanCommandText t
      \<longleftrightarrow> \<not> has_match bracket_mention (cleanCommandText t))
   \<and> (CHR ''<'' \<notin> set t \<longrightarrow>
        cleanMessageText (cleanMessageText t) = cleanMessageText t
        \<and> cleanCommandText (cleanCommandText t) = cleanCommandText t)"
proof (intro conjI impI)
  show "cleanMessageText (cleanMessageText t) = cleanMessageText t
      \<longleftrightarrow> \<not> has_match bracket_mention (cleanMessageText t)"
    using clean_fixpoint clean_not_fixpoint by blast
  show "cleanCommandText (cleanCommandText t) = cleanCommandText t
      \<longleftrightarrow> \<not> has_match bracket_mention (cleanCommandText t)"
    using command_fixpoint command_not_fixpoint by blast
next
  assume lt: "CHR ''<'' \<notin> set t"
  with set_clean [of t] have "CHR ''<'' \<notin> set (cleanMessageText t)" by blast
  then show "cleanMessageText (cleanMessageText t) = cleanMessageText t"
    by (intro clean_fixpoint no_lt_no_match)
  from lt set_command [of t] have "CHR ''<'' \<notin> set (cleanCommandText t)" by auto
  then show "cleanCommandText (cleanCommandText t) = cleanCommandText t"
    by (intro command_fixpoint no_lt_no_match)
qed

theorem cleaning_idempotent_witness:
  "CHR ''<'' \<notin> set ''@bot  /wiki  where is  @alice X''
   \<and> cleanMessageText (cleanMessageText ''@bot  /wiki  where is  @alice X'')
       = cleanMessageText ''@bot  /wiki  where is  @alice X''
   \<and> cleanCommandText (cleanCommandText ''@bot  /wiki  where is  @alice X'')
       = cleanCommandText ''@bot  /wiki  where is  @alice X''
   \<and> cleanCommandText ''@bot  /wiki  where is  @alice X'' = ''/wiki where is X''"
proof -
  have h: "CHR ''<'' \<notin> set ''@bot  /wiki  where is  @alice X''" by simp
  have v: "cleanCommandText ''@bot  /wiki  where is  @alice X'' = ''/wiki where is X''"
    by code_simp
  from h v cleaning_idempotent_iff [of "''@bot  /wiki  where is  @alice X''"]
  show ?thesis by blast
qed

text \<open>
  Claim C9 as stated fails: in \<^verbatim>\<open><<@a>@ x>\<close> the first pass removes \<^verbatim>\<open><@a>\<close>
  and leaves \<^verbatim>\<open><@ x>\<close>, which a second cleaning removes.
\<close>

theorem cleaning_not_idempotent:
  "cleanMessageText ''<<@a>@ x>'' = ''<@ x>''
   \<and> cleanMessageText (cleanMessageText ''<<@a>@ x>'') = []
   \<and> cleanMessageText (cleanMessageText ''<<@a>@ x>'') \<noteq> cleanMessageText ''<<@a>@ x>''
   \<and> cleanCommandText (cleanCommandText ''<<@a>@ x>'') \<noteq> cleanCommandText ''<<@a>@ x>''"
  by code_simp

section \<open>Properties of the command parser\<close>

text \<open>
  Claim C2 (numeric shortcut of the command grammar). The shortcut is matched on the
  lower-cased copy of the cleaned text, so the argument that \<^verbatim>\<open>parseCommand\<close>
  returns for \<^verbatim>\<open>2 Hello World\<close> is the lower-cased remainder
  \<^verbatim>\<open>hello world\<close>, not the remainder \<^verbatim>\<open>Hello World\<close> of the text; the
  slash form of the same command keeps the case of its remainder.
\<close>

theorem parseCommand_numeric_lowercases:
  "parseCommand ''2 Hello World'' = \<lparr>command = ''gemini'', argument = ''hello world''\<rparr>
   \<and> parseCommand ''/gemini Hello World'' = \<lparr>command = ''gemini'', argument = ''Hello World''\<rparr>"
  by code_simp

section \<open>Properties of the log redactor\<close>

declare sanitizeForLogging.simps [simp del]

lemma foldr_max_le: "(\<And>x. x \<in> set xs \<Longrightarrow> x \<le> (b::nat)) \<Longrightarrow> foldr max xs 0 \<le> b"
  by (induction xs) auto

lemma sanitize_nesting: "nesting (sanitizeForLogging h v depth) \<le> 11 - depth"
proof (induction h v depth rule: sanitizeForLogging.induct)
  case (1 h obj depth)
  show ?case
  proof (cases "10 < depth")
    case True
    then show ?thesis by (simp add: sanitizeForLogging.simps)
  next
    case False
    show ?thesis
    proof (cases obj)
      case (VRef a)
      show ?thesis
      proof (cases "h a")
        case (OArr items)
        have "foldr max (map nesting (map (\<lambda>item. sanitizeForLogging h item (depth + 1)) items)) 0
              \<le> 11 - (depth + 1)"
          by (rule foldr_max_le) (use 1(1) [OF False VRef OArr] in auto)
        with False VRef OArr show ?thesis
          by (subst sanitizeForLogging.simps) simp
      next
        case (OObj entries)
        have "foldr max (map (\<lambda>(key, value). nesting value)
                (map (\<lambda>(key, value).
                           (key, if is_sensitive key then JStr ''***MASKED***''
                                 else sanitizeForLogging h value (depth + 1))) entries)) 0
              \<le> 11 - (depth + 1)"
          by (rule foldr_max_le) (use 1(2) [OF False VRef OObj] in \<open>auto split: if_splits\<close>)
        with False VRef OObj show ?thesis
          by (subst sanitizeForLogging.simps) simp
      qed
    qed (use False in \<open>simp_all add: sanitizeForLogging.simps\<close>)
  qed
qed

text \<open>
  Claim C10, as amended. \<^verbatim>\<open>sanitizeForLogging\<close> is a total function on every
  store, cyclic ones included (its recursion is bounded by the depth, which is the
  termination measure above). Beyond depth 10 every value, primitive or not, is
  replaced by the string \<^verbatim>\<open>[Max depth reached]\<close>; up to depth 10
  \<^verbatim>\<open>null\<close>, \<^verbatim>\<open>undefined\<close> and the other primitives are returned as they
  are; and the result never has more than \<open>11 - depth\<close> levels.
\<close>

theorem sanitizeForLogging_capped:
  "(10 < depth \<longrightarrow> sanitizeForLogging h v depth = JStr ''[Max depth reached]'')
   \<and> (depth \<le> 10 \<longrightarrow>
        sanitizeForLogging h VNull depth = JNull
        \<and> sanitizeForLogging h VUndefined depth = JUndefined
        \<and> sanitizeForLogging h (VBool b) depth = JBool b
        \<and> sanitizeForLogging h (VNum n) depth = JNum n
        \<and> sanitizeForLogging h (VStr s) depth = JStr s)
   \<and> nesting (sanitizeForLogging h v depth) \<le> 11 - depth"
  by (intro conjI impI; (rule sanitize_nesting | simp add: sanitizeForLogging.simps))

theorem sanitizeForLogging_capped_witness:
  "sanitizeForLogging cyclic_store (VRef 0) 11 = JStr ''[Max depth reached]''
   \<and> sanitizeForLogging cyclic_store (VNum 5) 10 = JNum 5
   \<and> nesting (sanitizeForLogging cyclic_store (VRef 0) 0) \<le> 11"
  using sanitizeForLogging_capped [of 11 cyclic_store "VRef 0"]
    sanitizeForLogging_capped [of 10 cyclic_store "VRef 0" _ 5]
    sanitizeForLogging_capped [of 0 cyclic_store "VRef 0"]
  by simp

text \<open>
  Claim C10 as stated fails for primitives below the cap: the depth test comes first,
  so the number 5 at level 11 is replaced, not returned.
\<close>

theorem sanitizeForLogging_deep_primitive:
  "sanitizeForLogging deep_store (VNum 5) 11 \<noteq> JNum 5
   \<and> sanitizeForLogging deep_store (VRef 0) 0 =
       JArr [JArr [JArr [JArr [JArr [JArr [JArr [JArr [JArr [JArr [JArr
         [JStr ''[Max depth reached]'']]]]]]]]]]]"
  by code_simp

section \<open>Properties of the Azure OpenAI client and of the wiki handler\<close>












lemma block_text_described: "block_text block = described_block block"
proof (cases block)
  case (JObj kvs)
  then show ?thesis by (simp add: block_text_def js_and_def truthy_def split: json.split)
qed (simp_all add: block_text_def js_and_def truthy_def)

lemma message_content_described: "message_content c = described_content c"
proof -
  have "block_text = described_block" by (rule ext) (rule block_text_described)
  then show ?thesis by (cases c) (auto simp: js_or_def)
qed

lemma described_content_or: "js_or (described_content c) (JStr []) = described_content c"
  by (cases c) (auto simp: js_or_def truthy_def)

lemma azure_extract_shapes:
  assumes "property responseData ''choices'' = JArr (choice # rest)"
    and "\<not> nullish choice" and "\<not> nullish (property choice ''message'')"
  shows "azure_extract responseData =
         Inr \<lparr>content = described_content (property (property choice ''message'') ''content''),
              citations = found_citations (property choice ''message'')\<rparr>"
proof -
  from assms(1) have "\<not> nullish responseData" by (auto simp: nullish_def)
  with assms show ?thesis
    by (auto simp: azure_extract_def get_def bind_e_def truthy_def Let_def js_and_def
        message_content_described described_content_or found_citations_def)
qed

text \<open>
  Claim C8, as amended. For every response with status 200 whose \<^verbatim>\<open>choices\<close> array is
  not empty and whose first choice has a message, the client returns, without an
  error, the content that the specification describes (\<open>described_content\<close>) and the
  citations of the message.
\<close>

theorem azure_content_shapes:
  assumes "configured env options"
    and "fetch (azure_request env prompt chatHistory options) = Inr response"
    and "status response = 200"
    and "response_json response = Some responseData"
    and "property responseData ''choices'' = JArr (choice # rest)"
    and "\<not> nullish choice" and "\<not> nullish (property choice ''message'')"
  shows "callAzureOpenAI env fetch prompt chatHistory options =
         Inr \<lparr>content = described_content (property (property choice ''message'') ''content''),
              citations = found_citations (property choice ''message'')\<rparr>"
proof -
  have "callAzureOpenAI env fetch prompt chatHistory options = azure_extract responseData"
    using assms(1-4) by (simp add: callAzureOpenAI_def configured_def bind_e_def json_of_def)
  with azure_extract_shapes [OF assms(5-7)] show ?thesis by simp
qed

theorem azure_content_shapes_witness:
  "callAzureOpenAI example_env (replying blocks_body) ''hi'' [] \<lparr>model = [], useSearch = False\<rparr>
   = Inr \<lparr>content = JStr (''one'' @ [CHR 0x0A] @ ''two'' @ [CHR 0x0A] @ ''three'' @ [CHR 0x0A]),
          citations = JNull\<rparr>"
proof -
  let ?opts = "\<lparr>model = [], useSearch = False\<rparr>"
  let ?choice = "JObj [(''message'', JObj [(''content'',
       JArr [JStr ''one'', JObj [(''text'', JStr ''two'')], JObj [(''content'', JStr ''three'')],
             JNum 4])])]"
  have 1: "configured example_env ?opts" by (simp add: configured_def select_model_def example_env_def)
  have 2: "replying blocks_body (azure_request example_env ''hi'' [] ?opts)
           = Inr \<lparr>status = 200, response_text = JSON_stringify blocks_body,
                   response_json = Some blocks_body\<rparr>"
    by (simp add: replying_def)
  have 3: "property blocks_body ''choices'' = JArr (?choice # [])" by (simp add: blocks_body_def)
  have 4: "\<not> nullish ?choice" "\<not> nullish (property ?choice ''message'')" by (simp_all add: nullish_def)
  have 5: "status \<lparr>status = 200, response_text = JSON_stringify blocks_body,
                   response_json = Some blocks_body\<rparr> = 200" by simp
  have 6: "response_json \<lparr>status = 200, response_text = JSON_stringify blocks_body,
                   response_json = Some blocks_body\<rparr> = Some blocks_body" by simp
  from azure_content_shapes [where fetch = "replying blocks_body" and env = example_env
      and options = ?opts and prompt = "''hi''" and chatHistory = "[]", OF 1 2 5 6 3 4]
  show ?thesis
    by (simp add: found_citations_def truthy_def)
qed

text \<open>
  Claim C8 as stated fails where the first choice has no message: the client reads
  \<^verbatim>\<open>message.content\<close> of \<^verbatim>\<open>undefined\<close>, which is a \<^verbatim>\<open>TypeError\<close>, and so it is
  for a first choice that is \<^verbatim>\<open>null\<close>.
\<close>

theorem azure_missing_message_throws:
  "callAzureOpenAI example_env (replying (JObj [(''choices'', JArr [JObj []])])) ''hi'' []
     \<lparr>model = [], useSearch = False\<rparr>
   = Inl (cannot_read JUndefined ''content'')
   \<and> azure_extract (JObj [(''choices'', JArr [JNull])]) = Inl (cannot_read JNull ''message'')"
  by (simp add: callAzureOpenAI_def example_env_def select_model_def replying_def bind_e_def
      json_of_def azure_extract_def get_def truthy_def nullish_def)

lemma doc_marker_Nil [simp]: "doc_marker [] = None"
  by (simp add: doc_marker_def toLowerCase_def)



lemma digit_not_space: "is_digit c \<Longrightarrow> \<not> is_space c"
  by (auto simp: is_digit_def is_space_def)








section \<open>Properties of the history store\<close>

text \<open>
  Claim C7. For a document operation \<^verbatim>\<open>generateCosmosDBAuthHeader\<close> signs the string
  made of the lower-cased verb, the resource type, the resource identifier
  \<^verbatim>\<open>dbs/{database}/colls/{container}\<close> (no slash in front), an empty line and the
  lower-cased date, each followed by a line feed, with HMAC-SHA256 under the
  base64-decoded key; the authorization value is \<^verbatim>\<open>type=master&ver=1.0&sig=\<close> followed
  by the base64 text of the digest, and the date that is returned is the date of the
  clock as it is, not lower-cased.
\<close>

theorem cosmos_auth_header:
  "generateCosmosDBAuthHeader w verb ''docs'' key database container =
     \<lparr>auth = ''type=master&ver=1.0&sig=''
              @ base64_encode w
                  (hmac_sha256 w (base64_decode w key)
                     (canonical_string verb ''docs'' (''dbs/'' @ database @ ''/colls/'' @ container)
                        (toUTCString w))),
      date = toUTCString w\<rparr>"
  by (simp add: generateCosmosDBAuthHeader_def canonical_string_def Let_def)

theorem cosmos_auth_header_witness:
  "generateCosmosDBAuthHeader example_world ''POST'' ''docs'' ''c2VjcmV0'' ''db'' ''conversations'' =
     \<lparr>auth = ''type=master&ver=1.0&sig=c2VjcmV0:post'' @ [CHR 0x0A] @ ''docs'' @ [CHR 0x0A]
              @ ''dbs/db/colls/conversations'' @ [CHR 0x0A, CHR 0x0A]
              @ ''mon, 02 nov 2026 10:00:00 gmt'' @ [CHR 0x0A],
      date = ''Mon, 02 Nov 2026 10:00:00 GMT''\<rparr>"
proof -
  have "canonical_string ''POST'' ''docs'' (''dbs/'' @ ''db'' @ ''/colls/'' @ ''conversations'')
          ''Mon, 02 Nov 2026 10:00:00 GMT''
        = ''post'' @ [CHR 0x0A] @ ''docs'' @ [CHR 0x0A] @ ''dbs/db/colls/conversations''
          @ [CHR 0x0A, CHR 0x0A] @ ''mon, 02 nov 2026 10:00:00 gmt'' @ [CHR 0x0A]"
    by code_simp
  with cosmos_auth_header [of example_world "''POST''" "''c2VjcmV0''" "''db''" "''conversations''"]
  show ?thesis by (simp add: example_world_def)
qed

text \<open>
  Claim C6. With the store configured: when the network call of
  \<^verbatim>\<open>getOrCreateConversation\<close> fails, with an error or with a status other than 200
  and 201, the function still returns an identifier drawn from \<^verbatim>\<open>crypto.randomUUID\<close>
  (the one of the conversation it tried to create, or a second one after an error); it
  has no way to raise, its result is a value. When the network call of
  \<^verbatim>\<open>getChatHistory\<close> fails, the function raises: the error of the network as it is,
  or \<^verbatim>\<open>CosmosDB error:\<close> with the text of the response; it does not return a list.
\<close>

theorem history_store_asymmetry:
  assumes "cosmos_configured env"
  shows "(net w (conversation_request env w userId title) = Inl e
          \<longrightarrow> getOrCreateConversation env w userId [] title = JStr (randomUUID w 1))
    \<and> (net w (conversation_request env w userId title) = Inr response
        \<and> status response \<noteq> 201 \<and> status response \<noteq> 200
          \<longrightarrow> getOrCreateConversation env w userId [] title = JStr (randomUUID w 0)
              \<and> property (body (conversation_request env w userId title)) ''id'' = JStr (randomUUID w 0))
    \<and> (getOrCreateConversation_try env w userId title = Inl e
          \<longrightarrow> getOrCreateConversation env w userId [] title = JStr (randomUUID w 1))
    \<and> (net w (history_request env w userId conversationId) = Inl e
          \<longrightarrow> getChatHistory env w userId conversationId = Inl e)
    \<and> (getChatHistory_try env w userId conversationId = Inl e
          \<longrightarrow> getChatHistory env w userId conversationId = Inl e)
    \<and> (net w (history_request env w userId conversationId) = Inr response \<and> status response \<noteq> 200
          \<longrightarrow> getChatHistory env w userId conversationId
              = Inl (Error (''CosmosDB error: '' @ response_text response)))"
  using assms
  by (auto simp: getOrCreateConversation_def getOrCreateConversation_try_def getChatHistory_def
      getChatHistory_try_def bind_e_def conversation_request_def Let_def)

theorem history_store_asymmetry_witness:
  "getOrCreateConversation example_env example_world ''user-1'' [] []
     = JStr ''9b2f6c1e-0000-4000-8000-000000000001''
   \<and> getOrCreateConversation example_env failing_world ''user-1'' [] []
     = JStr ''9b2f6c1e-0000-4000-8000-000000000000''
   \<and> getChatHistory example_env example_world ''user-1'' ''conv-1'' = Inl (TypeError ''fetch failed'')
   \<and> getChatHistory example_env failing_world ''user-1'' ''conv-1''
     = Inl (Error ''CosmosDB error: Service Unavailable'')"
proof -
  have c: "cosmos_configured example_env" by (simp add: cosmos_configured_def example_env_def)
  have 1: "net example_world (conversation_request example_env example_world ''user-1'' [])
           = Inl (TypeError ''fetch failed'')"
    and 2: "net example_world (history_request example_env example_world ''user-1'' ''conv-1'')
           = Inl (TypeError ''fetch failed'')"
    by (simp_all add: example_world_def)
  let ?r = "\<lparr>status = 503, response_text = ''Service Unavailable'', response_json = None\<rparr>"
  have 3: "net failing_world (conversation_request example_env failing_world ''user-1'' []) = Inr ?r"
    and 4: "net failing_world (history_request example_env failing_world ''user-1'' ''conv-1'') = Inr ?r"
    by (simp_all add: failing_world_def)
  have u: "randomUUID example_world 1 = ''9b2f6c1e-0000-4000-8000-000000000001''"
    "randomUUID failing_world 0 = ''9b2f6c1e-0000-4000-8000-000000000000''"
    by (simp_all add: failing_world_def example_world_def)
  from history_store_asymmetry [OF c, where w = example_world and userId = "''user-1''"
      and title = "[]" and conversationId = "''conv-1''" and e = "TypeError ''fetch failed''"]
    history_store_asymmetry [OF c, where w = failing_world and userId = "''user-1''"
      and title = "[]" and conversationId = "''conv-1''" and response = ?r]
    1 2 3 4 u
  show ?thesis by simp
qed

section \<open>Properties of the HTTP handler\<close>

lemma reply_text_create [simp]: "reply_text (createChatResponse (JStr t)) = Some t"
  by (simp add: reply_text_def createChatResponse_def)

lemma is_envelope_create [simp]: "is_envelope (createChatResponse (JStr t))"
  by (simp add: is_envelope_def)

lemma is_envelope_iff: "is_envelope reply \<longleftrightarrow> (\<exists>t. reply = createChatResponse (JStr t))"
  by (auto simp: is_envelope_def split: option.splits)


lemma bind_e_Inl: "bind_e m f = Inl e \<longleftrightarrow> m = Inl e \<or> (\<exists>v. m = Inr v \<and> f v = Inl e)"
  by (cases m) (auto simp: bind_e_def)














end
